theory Spec2Isabelle
  imports Main "HOL-Library.AList"
begin

section \<open>Strings\<close>

text \<open>
  JavaScript strings are modelled as \<^typ>\<open>string\<close>, one \<^typ>\<open>char\<close> per code unit below 256.
  Among those code units, \<open>String.prototype.trim\<close> strips exactly TAB, LF, VT, FF, CR,
  SPACE and NBSP from both ends.
\<close>

definition is_ws :: "char \<Rightarrow> bool" where
  "is_ws c \<longleftrightarrow> c \<in> set [CHR 0x09, CHR 0x0A, CHR 0x0B, CHR 0x0C, CHR 0x0D, CHR 0x20, CHR 0xA0]"

definition trim :: "string \<Rightarrow> string" where
  "trim s = rev (dropWhile is_ws (rev (dropWhile is_ws s)))"

text \<open>The decimal numeral that a template literal \<open>${n}\<close> produces for a row count.\<close>

definition digit_char :: "nat \<Rightarrow> char" where
  "digit_char d = ''0123456789'' ! d"

fun toString :: "nat \<Rightarrow> string" where
  "toString n = (if n < 10 then [digit_char n] else toString (n div 10) @ [digit_char (n mod 10)])"

declare toString.simps [simp del]

definition endsWith :: "string \<Rightarrow> string \<Rightarrow> bool" where
  "endsWith sfx s \<longleftrightarrow> length sfx \<le> length s \<and> drop (length s - length sfx) s = sfx"

section \<open>Errors and the console\<close>

datatype error = TypeError | SyntaxError | NoSuchNode

datatype console_entry = ConsoleError string | ConsoleLog string

fun forEachE :: "('a \<Rightarrow> 's \<Rightarrow> error + 's) \<Rightarrow> 'a list \<Rightarrow> 's \<Rightarrow> error + 's" where
  "forEachE f [] s = Inr s"
| "forEachE f (x # xs) s = (case f x s of Inl e \<Rightarrow> Inl e | Inr s' \<Rightarrow> forEachE f xs s')"

section \<open>The DOM\<close>

text \<open>
  An element carries the attributes the scripts read or write. A listener is recorded as
  data: \<open>BlurSave\<close> is \<open>addEventListener('blur', saveData)\<close>, \<open>BlurRestore v\<close> is the closure
  of \<open>restoreLastValue\<close> with its captured \<open>lastValue = v\<close>, and \<open>MouseDownResize\<close> is the
  drag handler of a resize handle.
\<close>

datatype listener = BlurSave | BlurRestore string | MouseDownResize

record attrs =
  tag :: string
  className :: "string list"
  name :: "string option"
  val :: string
  readOnly :: bool
  listeners :: "listener list"

datatype node = Element attrs "node list" | Text string

definition createElement :: "string \<Rightarrow> node" where
  "createElement t =
     Element \<lparr>tag = t, className = [], name = None, val = [], readOnly = False, listeners = []\<rparr> []"

fun appendChild :: "node \<Rightarrow> node \<Rightarrow> node" where
  "appendChild (Element a ks) c = Element a (ks @ [c])"
| "appendChild (Text s) c = Text s"

fun childNodes :: "node \<Rightarrow> node list" where
  "childNodes (Element a ks) = ks"
| "childNodes (Text s) = []"

fun is_element :: "node \<Rightarrow> bool" where
  "is_element (Element a ks) = True"
| "is_element (Text s) = False"

definition children :: "node \<Rightarrow> node list" where
  "children n = filter is_element (childNodes n)"

fun has_tag :: "string list \<Rightarrow> node \<Rightarrow> bool" where
  "has_tag ts (Element a ks) = (tag a \<in> set ts)"
| "has_tag ts (Text s) = False"

definition cells :: "node \<Rightarrow> node list" where
  "cells row = filter (has_tag [''td'', ''th'']) (childNodes row)"

fun textContent :: "node \<Rightarrow> string" where
  "textContent (Text s) = s"
| "textContent (Element a ks) = concat (map textContent ks)"

definition classList_add :: "string \<Rightarrow> attrs \<Rightarrow> attrs" where
  "classList_add c a = (if c \<in> set (className a) then a else a\<lparr>className := className a @ [c]\<rparr>)"

fun on_attrs :: "(attrs \<Rightarrow> attrs) \<Rightarrow> node \<Rightarrow> node" where
  "on_attrs f (Element a ks) = Element (f a) ks"
| "on_attrs f (Text s) = Text s"

fun has_class :: "string \<Rightarrow> node \<Rightarrow> bool" where
  "has_class c (Element a ks) = (c \<in> set (className a))"
| "has_class c (Text s) = False"

text \<open>
  A reference to an element is the path of child indices from the root of the tree that
  holds it. An operation that moves the element returns its new path.
\<close>

fun node_at :: "node \<Rightarrow> nat list \<Rightarrow> node option" where
  "node_at n [] = Some n"
| "node_at (Text s) (i # p) = None"
| "node_at (Element a ks) (i # p) = (if i < length ks then node_at (ks ! i) p else None)"

fun update_at :: "nat list \<Rightarrow> (node \<Rightarrow> node) \<Rightarrow> node \<Rightarrow> node" where
  "update_at [] f n = f n"
| "update_at (i # p) f (Text s) = Text s"
| "update_at (i # p) f (Element a ks) =
     Element a (if i < length ks then ks[i := update_at p f (ks ! i)] else ks)"

text \<open>\<open>closest c root p\<close>: whether \<open>element.closest('.c')\<close> is non-null for the element at \<open>p\<close>.\<close>

fun closest :: "string \<Rightarrow> node \<Rightarrow> nat list \<Rightarrow> bool" where
  "closest c n [] = has_class c n"
| "closest c (Text s) (i # p) = False"
| "closest c (Element a ks) (i # p) =
     (has_class c (Element a ks) \<or> (i < length ks \<and> closest c (ks ! i) p))"

section \<open>Resize controller\<close>

text \<open>
  \<open>makeInputResizable\<close> of \<open>static/js/main.js\<close>. The container and the handle are
  created, the container takes the input's place under the input's parent, and input and handle
  become the container's children. With no parent, \<open>input.parentNode.insertBefore\<close> is a
  call on \<open>null\<close>.
\<close>

definition resize_handle :: node where
  "resize_handle =
     on_attrs (\<lambda>a. a\<lparr>className := [''resize-handle''], listeners := [MouseDownResize]\<rparr>)
       (createElement ''div'')"

definition wrap_input :: "node \<Rightarrow> node" where
  "wrap_input input =
     (let container = on_attrs (\<lambda>a. a\<lparr>className := [''resizable-input-container'']\<rparr>)
                        (createElement ''div'')
      in appendChild (appendChild container (on_attrs (classList_add ''resizable-input'') input))
           resize_handle)"

definition makeInputResizable :: "node \<Rightarrow> nat list \<Rightarrow> error + node \<times> nat list" where
  "makeInputResizable root input =
     (case input of
        [] \<Rightarrow> Inl TypeError
      | _ # _ \<Rightarrow>
          (case node_at root input of
             None \<Rightarrow> Inl NoSuchNode
           | Some _ \<Rightarrow> Inr (update_at input wrap_input root, input @ [0])))"

text \<open>
  \<open>makeInputResizable\<close> of \<open>src/unnamed/part_000\<close>: the same body behind the guard
  \<open>if (input.closest('.resizable-input-container')) return\<close>.
\<close>

definition makeInputResizable_p0 :: "node \<Rightarrow> nat list \<Rightarrow> error + node \<times> nat list" where
  "makeInputResizable_p0 root input =
     (if closest ''resizable-input-container'' root input then Inr (root, input)
      else makeInputResizable root input)"

text \<open>The number of elements of a subtree that carry a class.\<close>

fun count_class :: "string \<Rightarrow> node \<Rightarrow> nat" where
  "count_class c (Text s) = 0"
| "count_class c (Element a ks) =
     (if c \<in> set (className a) then 1 else 0) + sum_list (map (count_class c) ks)"

definition text_input :: "string \<Rightarrow> string \<Rightarrow> string list \<Rightarrow> node" where
  "text_input n v cls =
     on_attrs (\<lambda>a. a\<lparr>name := Some n, val := v, className := cls\<rparr>) (createElement ''input'')"

section \<open>Page state and status messages\<close>

record message_box =
  mb_textContent :: string
  mb_className :: string
  mb_backgroundColor :: string

text \<open>
  \<open>messageBox\<close> is what \<open>document.getElementById('messageBox')\<close> finds. The timer that
  clears the class after 1500 ms is not part of the model.
\<close>

record page =
  messageBox :: "message_box option"
  console :: "console_entry list"

definition console_error :: "string \<Rightarrow> 'a page_scheme \<Rightarrow> 'a page_scheme" where
  "console_error m p = p\<lparr>console := console p @ [ConsoleError m]\<rparr>"

text \<open>\<open>showMessage\<close> of \<open>static/js/main.js\<close>.\<close>

definition showMessage :: "string \<Rightarrow> string \<Rightarrow> 'a page_scheme \<Rightarrow> 'a page_scheme" where
  "showMessage message type p =
     (case messageBox p of
        None \<Rightarrow> console_error ''Message box element not found!'' p
      | Some msgBox \<Rightarrow>
          p\<lparr>messageBox := Some (msgBox\<lparr>mb_textContent := message, mb_className := ''show'',
                 mb_backgroundColor :=
                   (if type = ''error'' then ''#dc2626''
                    else if type = ''success'' then ''#16a34a''
                    else ''#2563eb'')\<rparr>)\<rparr>)"

text \<open>\<open>showMessage\<close> of \<open>src/unnamed/part_000\<close>: a colour table with \<open>info\<close> as fallback.\<close>

definition colors :: "(string \<times> string) list" where
  "colors = [(''error'', ''#dc2626''), (''success'', ''#16a34a''), (''info'', ''#2563eb'')]"

definition showMessage_p0 :: "string \<Rightarrow> string \<Rightarrow> 'a page_scheme \<Rightarrow> 'a page_scheme" where
  "showMessage_p0 message type p =
     (case messageBox p of
        None \<Rightarrow> p
      | Some msgBox \<Rightarrow>
          p\<lparr>messageBox := Some (msgBox\<lparr>mb_textContent := message, mb_className := ''show'',
                 mb_backgroundColor :=
                   (case map_of colors type of Some c \<Rightarrow> c | None \<Rightarrow> ''#2563eb'')\<rparr>)\<rparr>)"

section \<open>Value-restore guard\<close>

text \<open>
  \<open>restoreLastValue\<close> reads the input's value into the closure variable \<open>lastValue\<close> and
  registers a blur listener. In a tree the registration is recorded on the element.
\<close>

definition restoreLastValue :: "node \<Rightarrow> nat list \<Rightarrow> node" where
  "restoreLastValue root inputElement =
     update_at inputElement
       (on_attrs (\<lambda>a. a\<lparr>listeners := listeners a @ [BlurRestore (val a)]\<rparr>)) root"

text \<open>
  One guarded field: its value, the closure's \<open>lastValue\<close>, and what the listener logs.
  Between two blurs anything may assign the value (typing, \<open>loadSavedData\<close>).
\<close>

record guarded =
  inputValue :: string
  lastValue :: string
  guardLog :: "console_entry list"

definition guard_attach :: "string \<Rightarrow> guarded" where
  "guard_attach v = \<lparr>inputValue = v, lastValue = v, guardLog = []\<rparr>"

text \<open>The blur listener of \<open>static/js/main.js\<close>.\<close>

definition on_blur :: "guarded \<Rightarrow> guarded" where
  "on_blur g =
     (let currentValue = trim (inputValue g)
      in if currentValue = []
         then g\<lparr>inputValue := lastValue g,
                guardLog := guardLog g @ [ConsoleLog (''Input restored to last value: '' @ lastValue g)]\<rparr>
         else g\<lparr>lastValue := currentValue\<rparr>)"

text \<open>The blur listener of \<open>src/unnamed/part_000\<close>: the same without the log line.\<close>

definition on_blur_p0 :: "guarded \<Rightarrow> guarded" where
  "on_blur_p0 g =
     (let currentValue = trim (inputValue g)
      in if currentValue = [] then g\<lparr>inputValue := lastValue g\<rparr>
         else g\<lparr>lastValue := currentValue\<rparr>)"

datatype event = SetValue string | Blur

fun guard_step :: "(guarded \<Rightarrow> guarded) \<Rightarrow> event \<Rightarrow> guarded \<Rightarrow> guarded" where
  "guard_step blur (SetValue v) g = g\<lparr>inputValue := v\<rparr>"
| "guard_step blur Blur g = blur g"

definition guard_run :: "(guarded \<Rightarrow> guarded) \<Rightarrow> string \<Rightarrow> event list \<Rightarrow> guarded" where
  "guard_run blur v es = fold (guard_step blur) es (guard_attach v)"

section \<open>Row factory\<close>

text \<open>
  \<open>components_tbody\<close> is what \<open>document.getElementById('components-tbody')\<close> finds and
  \<open>components_thead_row\<close> what
  \<open>document.querySelector('#components-table thead tr:last-child')\<close> finds; the two are
  disjoint subtrees of the document.
\<close>

record document = page +
  components_tbody :: "node option"
  components_thead_row :: "node option"

fun findIndex :: "('a \<Rightarrow> bool) \<Rightarrow> 'a list \<Rightarrow> nat option" where
  "findIndex P [] = None"
| "findIndex P (x # xs) = (if P x then Some 0 else map_option Suc (findIndex P xs))"

text \<open>
  The property list of \<open>addComponentRow\<close>: empty without a header row, \<open>None\<close> where the
  function returns early because no cell is labelled \<open>Cost\<close>, else the trimmed labels
  after that cell.
\<close>

definition propertyHeaders :: "node option \<Rightarrow> string list option" where
  "propertyHeaders componentsTheadRow =
     (case componentsTheadRow of
        None \<Rightarrow> Some []
      | Some row \<Rightarrow>
          (case findIndex (\<lambda>th. trim (textContent th) = ''Cost'') (cells row) of
             None \<Rightarrow> None
           | Some costHeaderIndex \<Rightarrow>
               Some (map (\<lambda>c. trim (textContent c)) (drop (costHeaderIndex + 1) (cells row)))))"

definition property_default :: "string \<Rightarrow> string" where
  "property_default prop =
     (if prop \<in> set [''SUL'', ''ARO'', ''BEN'', ''OXY'', ''OLEFIN''] then []
      else if prop \<in> set [''RON'', ''MON''] then ''inf''
      else ''0'')"

definition numeric_classes :: "string list" where
  "numeric_classes = [''resizable-component-input'', ''numeric-input'', ''text-left'']"

definition td_text_left :: node where
  "td_text_left = on_attrs (classList_add ''text-left'') (createElement ''td'')"

text \<open>The two identity cells of \<open>static/js/main.js\<close>: an input that saves on blur.\<close>

definition identity_cell :: "string \<Rightarrow> string \<Rightarrow> node" where
  "identity_cell n v =
     appendChild td_text_left
       (on_attrs (\<lambda>a. let a' = classList_add ''text-left'' (a\<lparr>name := Some n, val := v\<rparr>)
                        in a'\<lparr>listeners := listeners a' @ [BlurSave]\<rparr>)
          (createElement ''input''))"

text \<open>
  The body of both \<open>forEach\<close> loops of \<open>static/js/main.js\<close>: build cell and input, append the
  cell to the row, then \<open>makeInputResizable(input)\<close> and \<open>restoreLastValue(input)\<close>.
\<close>

definition numeric_cell :: "string \<Rightarrow> string \<Rightarrow> node \<Rightarrow> error + node" where
  "numeric_cell n v newRow =
     (let input = text_input n v numeric_classes;
          cell = appendChild td_text_left input;
          newRow' = appendChild newRow cell
      in case makeInputResizable newRow' [length (childNodes newRow') - 1, 0] of
           Inl e \<Rightarrow> Inl e
         | Inr (newRow'', input') \<Rightarrow> Inr (restoreLastValue newRow'' input'))"

definition field_name :: "string \<Rightarrow> string \<Rightarrow> string" where
  "field_name newComponentTag suffix = ''component_'' @ newComponentTag @ ''_'' @ suffix"

definition inputFields :: "string \<Rightarrow> (string \<times> string) list" where
  "inputFields newComponentTag =
     [(field_name newComponentTag ''min_comp'', ''0''),
      (field_name newComponentTag ''availability'', ''0''),
      (field_name newComponentTag ''factor'', ''1''),
      (field_name newComponentTag ''cost'', ''25.00'')]"

definition newRow_of :: "nat \<Rightarrow> string list \<Rightarrow> error + node" where
  "newRow_of newComponentIndex props =
     (let newComponentName = ''NewComponent'' @ toString newComponentIndex;
          newComponentTag = ''NC'' @ toString newComponentIndex;
          newRow = appendChild
                     (appendChild (createElement ''tr'')
                        (identity_cell (field_name newComponentTag ''name'') newComponentTag))
                     (identity_cell (field_name newComponentTag ''tag'') newComponentName)
      in case forEachE (\<lambda>(n, v). numeric_cell n v) (inputFields newComponentTag) newRow of
           Inl e \<Rightarrow> Inl e
         | Inr newRow' \<Rightarrow>
             forEachE (\<lambda>prop. numeric_cell (field_name newComponentTag (''property_'' @ prop))
                                 (property_default prop))
               props newRow')"

definition added_message :: "nat \<Rightarrow> string" where
  "added_message newComponentIndex =
     ''New component '' @ [CHR 0x27] @ ''NC'' @ toString newComponentIndex @ [CHR 0x27] @ '' added!''"

text \<open>\<open>addComponentRow\<close> of \<open>static/js/main.js\<close>.\<close>

definition addComponentRow :: "document \<Rightarrow> error + document" where
  "addComponentRow d =
     (case components_tbody d of
        None \<Rightarrow> Inr (console_error ''Components table body not found.'' d)
      | Some componentsTbody \<Rightarrow>
          (case propertyHeaders (components_thead_row d) of
             None \<Rightarrow>
               Inr (console_error
                      ''Could not find 'Cost' header to determine property start index.'' d)
           | Some props \<Rightarrow>
               (let newComponentIndex = length (children componentsTbody) + 1
                in case newRow_of newComponentIndex props of
                     Inl e \<Rightarrow> Inl e
                   | Inr newRow \<Rightarrow>
                       Inr (showMessage (added_message newComponentIndex) ''success''
                              (d\<lparr>components_tbody := Some (appendChild componentsTbody newRow)\<rparr>)))))"

text \<open>
  \<open>addComponentRow\<close> of \<open>src/unnamed/part_000\<close>. \<open>createInputCell\<close> returns the cell with
  the input as its only child, so the input is the cell's child 0.
\<close>

definition createInputCell :: "string \<Rightarrow> string \<Rightarrow> string list \<Rightarrow> node" where
  "createInputCell n v cls = appendChild td_text_left (text_input n v cls)"

definition identity_cell_p0 :: "string \<Rightarrow> string \<Rightarrow> node" where
  "identity_cell_p0 n v =
     update_at [0] (on_attrs (\<lambda>a. a\<lparr>listeners := listeners a @ [BlurSave]\<rparr>))
       (createInputCell n v [''text-left''])"

definition numeric_cell_p0 :: "string \<Rightarrow> string \<Rightarrow> node \<Rightarrow> error + node" where
  "numeric_cell_p0 n v newRow =
     (let cell = createInputCell n v numeric_classes;
          newRow' = appendChild newRow cell
      in case makeInputResizable_p0 newRow' [length (childNodes newRow') - 1, 0] of
           Inl e \<Rightarrow> Inl e
         | Inr (newRow'', input') \<Rightarrow> Inr (restoreLastValue newRow'' input'))"

definition newRow_of_p0 :: "nat \<Rightarrow> string list \<Rightarrow> error + node" where
  "newRow_of_p0 newComponentIndex props =
     (let newComponentName = ''NewComponent'' @ toString newComponentIndex;
          newComponentTag = ''NC'' @ toString newComponentIndex;
          newRow = appendChild
                     (appendChild (createElement ''tr'')
                        (identity_cell_p0 (field_name newComponentTag ''name'') newComponentTag))
                     (identity_cell_p0 (field_name newComponentTag ''tag'') newComponentName)
      in case forEachE (\<lambda>(n, v). numeric_cell_p0 n v) (inputFields newComponentTag) newRow of
           Inl e \<Rightarrow> Inl e
         | Inr newRow' \<Rightarrow>
             forEachE (\<lambda>prop. numeric_cell_p0 (field_name newComponentTag (''property_'' @ prop))
                                 (property_default prop))
               props newRow')"

definition addComponentRow_p0 :: "document \<Rightarrow> error + document" where
  "addComponentRow_p0 d =
     (case components_tbody d of
        None \<Rightarrow> Inr (console_error ''Components table body not found.'' d)
      | Some componentsTbody \<Rightarrow>
          (case propertyHeaders (components_thead_row d) of
             None \<Rightarrow>
               Inr (console_error
                      ''Could not find 'Cost' header to determine property start index.'' d)
           | Some props \<Rightarrow>
               (let newComponentIndex = length (children componentsTbody) + 1
                in case newRow_of_p0 newComponentIndex props of
                     Inl e \<Rightarrow> Inl e
                   | Inr newRow \<Rightarrow>
                       Inr (showMessage_p0 (added_message newComponentIndex) ''success''
                              (d\<lparr>components_tbody := Some (appendChild componentsTbody newRow)\<rparr>)))))"

text \<open>Repeated invocations, and the header changing between invocations.\<close>

fun addRows :: "nat \<Rightarrow> document \<Rightarrow> error + document" where
  "addRows 0 d = Inr d"
| "addRows (Suc k) d = (case addComponentRow d of Inl e \<Rightarrow> Inl e | Inr d' \<Rightarrow> addRows k d')"

text \<open>The input elements of a subtree in document order, and those with a name.\<close>

fun inputs_of :: "node \<Rightarrow> attrs list" where
  "inputs_of (Text s) = []"
| "inputs_of (Element a ks) =
     (if tag a = ''input'' then [a] else []) @ concat (map inputs_of ks)"

definition named_inputs :: "node \<Rightarrow> (string \<times> string) list" where
  "named_inputs n =
     concat (map (\<lambda>a. case name a of None \<Rightarrow> [] | Some k \<Rightarrow> [(k, val a)]) (inputs_of n))"

text \<open>
  What \<open>numeric_cell\<close> leaves in the row: the cell, the container around the input, the
  input with its guard, and the handle.
\<close>

definition guarded_cell :: "string \<Rightarrow> string \<Rightarrow> node" where
  "guarded_cell n v =
     Element \<lparr>tag = ''td'', className = [''text-left''], name = None, val = [], readOnly = False,
              listeners = []\<rparr>
       [Element \<lparr>tag = ''div'', className = [''resizable-input-container''], name = None, val = [],
                 readOnly = False, listeners = []\<rparr>
          [Element \<lparr>tag = ''input'', className = numeric_classes @ [''resizable-input''],
                    name = Some n, val = v, readOnly = False, listeners = [BlurRestore v]\<rparr> [],
           resize_handle]]"

definition property_field :: "string \<Rightarrow> string \<Rightarrow> string \<times> string" where
  "property_field newComponentTag prop =
     (field_name newComponentTag (''property_'' @ prop), property_default prop)"

definition tr_attrs :: attrs where
  "tr_attrs = \<lparr>tag = ''tr'', className = [], name = None, val = [], readOnly = False, listeners = []\<rparr>"

definition row_cells :: "nat \<Rightarrow> string list \<Rightarrow> node list" where
  "row_cells i props =
     (let t = ''NC'' @ toString i
      in [identity_cell (field_name t ''name'') t,
          identity_cell (field_name t ''tag'') (''NewComponent'' @ toString i)]
         @ map (\<lambda>(n, v). guarded_cell n v) (inputFields t)
         @ map (\<lambda>p. guarded_cell (field_name t (''property_'' @ p)) (property_default p)) props)"

definition tbody_rows :: "document \<Rightarrow> node list" where
  "tbody_rows d = (case components_tbody d of None \<Rightarrow> [] | Some tb \<Rightarrow> children tb)"

text \<open>Two invocations with the header row replaced in between.\<close>

definition add_change_add :: "node option \<Rightarrow> document \<Rightarrow> error + document" where
  "add_change_add h d =
     (case addComponentRow d of
        Inl e \<Rightarrow> Inl e
      | Inr d' \<Rightarrow> addComponentRow (d'\<lparr>components_thead_row := h\<rparr>))"

text \<open>Example documents.\<close>

definition th :: "string \<Rightarrow> node" where
  "th label = appendChild (createElement ''th'') (Text label)"

definition header_row :: "string list \<Rightarrow> node" where
  "header_row labels = fold (\<lambda>l row. appendChild row (th l)) labels (createElement ''tr'')"

definition example_box :: message_box where
  "example_box = \<lparr>mb_textContent = [], mb_className = [], mb_backgroundColor = []\<rparr>"

definition example_doc :: "string list option \<Rightarrow> document" where
  "example_doc labels =
     \<lparr>messageBox = Some example_box, console = [],
      components_tbody = Some (createElement ''tbody''),
      components_thead_row = map_option header_row labels\<rparr>"

section \<open>Persistence store\<close>

text \<open>
  The form is the list of its enabled text controls in document order. \<open>localStorage\<close> maps
  keys to strings; \<open>storage_writable\<close> says whether \<open>localStorage.setItem\<close> succeeds.
  \<open>JSON.stringify\<close> and \<open>JSON.parse\<close> are parameters; a parse yields a syntax error or a flat
  object with string values, the only kind \<open>saveData\<close> writes.
\<close>

record control =
  cname :: string
  cvalue :: string

record app = page +
  form :: "control list option"
  localStorage :: "string \<rightharpoonup> string"
  storage_writable :: bool

definition storageKey :: string where
  "storageKey = ''componentFormData''"

text \<open>\<open>new FormData(form)\<close>: one entry per control with a non-empty name.\<close>

definition formData :: "control list \<Rightarrow> (string \<times> string) list" where
  "formData cs = map (\<lambda>c. (cname c, cvalue c)) (filter (\<lambda>c. cname c \<noteq> []) cs)"

text \<open>
  A plain object lists its keys with the array indices first, in ascending numeric order,
  and the other keys after them in the order of their creation. An array index is the
  decimal numeral, without leading zero, of a number below \<open>2^32 - 1 = 4294967295\<close>. Such
  numerals compare as their numbers do: the shorter one is less, and two of one length
  compare digit by digit. An object is the list of its entries in the order of its keys.
\<close>

definition is_digit :: "char \<Rightarrow> bool" where
  "is_digit c \<longleftrightarrow> c \<in> set ''0123456789''"

fun digits_less :: "string \<Rightarrow> string \<Rightarrow> bool" where
  "digits_less (c # cs) (d # ds) =
     ((of_char c :: nat) < of_char d \<or> (c = d \<and> digits_less cs ds))"
| "digits_less cs ds = False"

definition numeral_less :: "string \<Rightarrow> string \<Rightarrow> bool" where
  "numeral_less k k' \<longleftrightarrow> length k < length k' \<or> (length k = length k' \<and> digits_less k k')"

definition array_index :: "string \<Rightarrow> bool" where
  "array_index k =
     (case k of
        [] \<Rightarrow> False
      | c # cs \<Rightarrow>
          list_all is_digit k \<and> (c \<noteq> CHR ''0'' \<or> cs = []) \<and> numeral_less k ''4294967295'')"

fun insert_key :: "string \<Rightarrow> string \<Rightarrow> (string \<times> string) list \<Rightarrow> (string \<times> string) list" where
  "insert_key k v [] = [(k, v)]"
| "insert_key k v ((k', v') # obj) =
     (if array_index k \<and> (if array_index k' then numeral_less k k' else True)
      then (k, v) # (k', v') # obj
      else (k', v') # insert_key k v obj)"

text \<open>
  \<open>dataObject[key] = value\<close> on a plain object: a present key keeps its place and takes the
  new value, a new key is created, and a string assigned to \<open>__proto__\<close> is dropped.
\<close>

definition obj_set :: "string \<Rightarrow> string \<Rightarrow> (string \<times> string) list \<Rightarrow> (string \<times> string) list" where
  "obj_set key v obj =
     (if key = ''__proto__'' then obj
      else if key \<in> set (map fst obj) then AList.update key v obj
      else insert_key key v obj)"

definition dataObject :: "control list \<Rightarrow> (string \<times> string) list" where
  "dataObject cs = fold (\<lambda>(key, v). obj_set key v) (formData cs) []"

definition saveData :: "((string \<times> string) list \<Rightarrow> string) \<Rightarrow> app \<Rightarrow> app" where
  "saveData stringify p =
     (case form p of
        None \<Rightarrow> p
      | Some cs \<Rightarrow>
          if storage_writable p
          then p\<lparr>localStorage := (localStorage p)(storageKey \<mapsto> stringify (dataObject cs))\<rparr>
          else console_error ''Error saving data to localStorage:'' p)"

text \<open>
  \<open>form.querySelector('[name="' + inputName + '"]')\<close>. For a name without quote, backslash,
  line break or NUL the selector is an exact match on the name attribute and finds the first
  such control. What the selector engine does with any other name is the parameter \<open>other\<close>.
\<close>

definition css_safe :: "string \<Rightarrow> bool" where
  "css_safe n = list_all (\<lambda>c. c \<notin> set [CHR 0x22, CHR 0x5C, CHR 0x0A, CHR 0x0C, CHR 0x0D, CHR 0x00]) n"

definition querySelector_name ::
  "(string \<Rightarrow> control list \<Rightarrow> error + nat option) \<Rightarrow> control list \<Rightarrow> string \<Rightarrow> error + nat option" where
  "querySelector_name other cs inputName =
     (if css_safe inputName then Inr (findIndex (\<lambda>c. cname c = inputName) cs)
      else other inputName cs)"

text \<open>
  The loop over the keys of the parsed object. A selector error leaves the values written
  so far in place.
\<close>

fun restore_entries ::
  "(string \<Rightarrow> control list \<Rightarrow> error + nat option) \<Rightarrow> (string \<times> string) list \<Rightarrow> control list
     \<Rightarrow> control list \<times> error option" where
  "restore_entries other [] cs = (cs, None)"
| "restore_entries other ((inputName, v) # data) cs =
     (case querySelector_name other cs inputName of
        Inl e \<Rightarrow> (cs, Some e)
      | Inr None \<Rightarrow> restore_entries other data cs
      | Inr (Some i) \<Rightarrow> restore_entries other data (cs[i := (cs ! i)\<lparr>cvalue := v\<rparr>]))"

definition load_failed :: "app \<Rightarrow> app" where
  "load_failed p =
     (console_error ''Error loading data from localStorage:'' p)
       \<lparr>localStorage := (localStorage p)(storageKey := None)\<rparr>"

text \<open>\<open>loadSavedData\<close> of \<open>static/js/main.js\<close>.\<close>

definition loadSavedData ::
  "(string \<Rightarrow> error + (string \<times> string) list) \<Rightarrow> (string \<Rightarrow> control list \<Rightarrow> error + nat option)
     \<Rightarrow> app \<Rightarrow> app" where
  "loadSavedData parse other p =
     (case form p of
        None \<Rightarrow> console_error ''Form not found.'' p
      | Some cs \<Rightarrow>
          (case localStorage p storageKey of
             None \<Rightarrow> p
           | Some savedData \<Rightarrow>
               if savedData = [] then p
               else (case parse savedData of
                       Inl e \<Rightarrow> load_failed p
                     | Inr data \<Rightarrow>
                         (case restore_entries other data cs of
                            (cs', Some e) \<Rightarrow> load_failed (p\<lparr>form := Some cs'\<rparr>)
                          | (cs', None) \<Rightarrow>
                              showMessage ''Previous data restored successfully!'' ''success''
                                (p\<lparr>form := Some cs'\<rparr>)))))"

text \<open>\<open>loadSavedData\<close> of \<open>src/unnamed/part_000\<close>: silent without a form.\<close>

definition loadSavedData_p0 ::
  "(string \<Rightarrow> error + (string \<times> string) list) \<Rightarrow> (string \<Rightarrow> control list \<Rightarrow> error + nat option)
     \<Rightarrow> app \<Rightarrow> app" where
  "loadSavedData_p0 parse other p =
     (case form p of
        None \<Rightarrow> p
      | Some cs \<Rightarrow>
          (case localStorage p storageKey of
             None \<Rightarrow> p
           | Some savedData \<Rightarrow>
               if savedData = [] then p
               else (case parse savedData of
                       Inl e \<Rightarrow> load_failed p
                     | Inr data \<Rightarrow>
                         (case restore_entries other data cs of
                            (cs', Some e) \<Rightarrow> load_failed (p\<lparr>form := Some cs'\<rparr>)
                          | (cs', None) \<Rightarrow>
                              showMessage_p0 ''Previous data restored successfully!'' ''success''
                                (p\<lparr>form := Some cs'\<rparr>)))))"

text \<open>
  A name that \<open>saveData\<close> stores and the selector of \<open>loadSavedData\<close> finds again.
\<close>

definition plain_name :: "string \<Rightarrow> bool" where
  "plain_name n \<longleftrightarrow> n \<noteq> [] \<and> n \<noteq> ''__proto__'' \<and> css_safe n"

text \<open>
  Saving on one page, then loading on a page that has the storage the first one left and a
  form with the controls \<open>cs'\<close>.
\<close>

definition save_then_restore ::
  "((string \<times> string) list \<Rightarrow> string) \<Rightarrow> (string \<Rightarrow> error + (string \<times> string) list)
     \<Rightarrow> (string \<Rightarrow> control list \<Rightarrow> error + nat option) \<Rightarrow> app \<Rightarrow> control list \<Rightarrow> app" where
  "save_then_restore stringify parse other p cs' =
     loadSavedData parse other ((saveData stringify p)\<lparr>form := Some cs'\<rparr>)"

definition save_then_restore_p0 ::
  "((string \<times> string) list \<Rightarrow> string) \<Rightarrow> (string \<Rightarrow> error + (string \<times> string) list)
     \<Rightarrow> (string \<Rightarrow> control list \<Rightarrow> error + nat option) \<Rightarrow> app \<Rightarrow> control list \<Rightarrow> app" where
  "save_then_restore_p0 stringify parse other p cs' =
     loadSavedData_p0 parse other ((saveData stringify p)\<lparr>form := Some cs'\<rparr>)"

text \<open>
  Example pages. \<open>example_stringify\<close> is \<open>JSON.stringify\<close> on flat objects whose strings
  hold no control characters; \<open>example_parse\<close> is \<open>JSON.parse\<close> on the texts of the
  objects listed and rejects the other texts of the examples, none of which is JSON;
  \<open>example_selector\<close> is the selector engine on a name with an unbalanced quote.
\<close>

definition json_quote :: "string \<Rightarrow> string" where
  "json_quote s =
     [CHR 0x22] @ concat (map (\<lambda>c. if c = CHR 0x22 \<or> c = CHR 0x5C then [CHR 0x5C, c] else [c]) s)
     @ [CHR 0x22]"

fun json_members :: "(string \<times> string) list \<Rightarrow> string" where
  "json_members [] = []"
| "json_members [(k, v)] = json_quote k @ '':'' @ json_quote v"
| "json_members ((k, v) # kv # obj) = json_quote k @ '':'' @ json_quote v @ '','' @ json_members (kv # obj)"

definition example_stringify :: "(string \<times> string) list \<Rightarrow> string" where
  "example_stringify obj = ''{'' @ json_members obj @ ''}''"

definition example_parse :: "(string \<times> string) list list \<Rightarrow> string \<Rightarrow> error + (string \<times> string) list" where
  "example_parse objs s =
     (case find (\<lambda>obj. example_stringify obj = s) objs of
        None \<Rightarrow> Inl SyntaxError
      | Some obj \<Rightarrow> Inr obj)"

definition example_selector :: "string \<Rightarrow> control list \<Rightarrow> error + nat option" where
  "example_selector n cs = Inl SyntaxError"

definition example_app :: "control list \<Rightarrow> (string \<rightharpoonup> string) \<Rightarrow> app" where
  "example_app cs store =
     \<lparr>messageBox = Some example_box, console = [], form = Some cs, localStorage = store,
      storage_writable = True\<rparr>"

definition field :: "string \<Rightarrow> string \<Rightarrow> control" where
  "field n v = \<lparr>cname = n, cvalue = v\<rparr>"

section \<open>Field-rule engine\<close>

text \<open>
  \<open>row.querySelectorAll('input[name$="_min"]').forEach(f)\<close>: \<open>f\<close> on every matching
  descendant of the row, where \<open>f\<close> only assigns properties of the element it is given.
\<close>

fun apply_matching :: "(attrs \<Rightarrow> bool) \<Rightarrow> (attrs \<Rightarrow> attrs) \<Rightarrow> node \<Rightarrow> node" where
  "apply_matching sel f (Text s) = Text s"
| "apply_matching sel f (Element a ks) =
     Element (if sel a then f a else a) (map (apply_matching sel f) ks)"

fun querySelectorAll_forEach :: "(attrs \<Rightarrow> bool) \<Rightarrow> (attrs \<Rightarrow> attrs) \<Rightarrow> node \<Rightarrow> node" where
  "querySelectorAll_forEach sel f (Text s) = Text s"
| "querySelectorAll_forEach sel f (Element a ks) = Element a (map (apply_matching sel f) ks)"

definition input_name_ends :: "string \<Rightarrow> attrs \<Rightarrow> bool" where
  "input_name_ends sfx a \<longleftrightarrow>
     tag a = ''input'' \<and> (case name a of None \<Rightarrow> False | Some n \<Rightarrow> endsWith sfx n)"

definition lock :: "attrs \<Rightarrow> attrs" where
  "lock a = classList_add ''cursor-not-allowed'' (classList_add ''bg-gray-200'' (a\<lparr>readOnly := True\<rparr>))"

text \<open>
  The \<open>switch\<close> of \<open>static/js/main.js\<close> on one row of \<open>#specs-tbody\<close>. A row without
  cells makes \<open>row.cells[0].textContent\<close> a property read on \<open>undefined\<close>.
\<close>

definition apply_rule_switch :: "node \<Rightarrow> error + node" where
  "apply_rule_switch row =
     (case cells row of
        [] \<Rightarrow> Inl TypeError
      | c # _ \<Rightarrow>
          (let propertyName = trim (textContent c)
           in Inr (if propertyName \<in> set [''SUL'', ''ARO'', ''BEN'', ''OXY'', ''OLEFIN'']
                   then querySelectorAll_forEach (input_name_ends ''_min'')
                          (\<lambda>a. lock (a\<lparr>val := []\<rparr>)) row
                   else if propertyName = ''RVP''
                   then querySelectorAll_forEach (input_name_ends ''_min'') (\<lambda>a. a\<lparr>val := ''0''\<rparr>) row
                   else if propertyName \<in> set [''RON'', ''MON'']
                   then querySelectorAll_forEach (input_name_ends ''_max'')
                          (\<lambda>a. lock (a\<lparr>val := ''inf''\<rparr>)) row
                   else row)))"

text \<open>
  The rows of \<open>#specs-tbody\<close> are separate subtrees, given in document order. An exception
  in one callback ends the \<open>forEach\<close>; the rows before it stay changed.
\<close>

fun apply_rules :: "node list \<Rightarrow> node list \<times> error option" where
  "apply_rules [] = ([], None)"
| "apply_rules (row # rows) =
     (case apply_rule_switch row of
        Inl e \<Rightarrow> (row # rows, Some e)
      | Inr row' \<Rightarrow> (case apply_rules rows of (rows', r) \<Rightarrow> (row' # rows', r)))"

text \<open>
  The rule table of \<open>src/unnamed/part_000\<close>. A field that a rule object does not have
  reads as \<open>undefined\<close>: \<open>False\<close> or \<open>None\<close> here.
\<close>

record rule =
  minEmpty :: bool
  minValue :: "string option"
  maxValue :: "string option"
  maxReadonly :: bool

definition no_effect :: rule where
  "no_effect = \<lparr>minEmpty = False, minValue = None, maxValue = None, maxReadonly = False\<rparr>"

definition fieldRules :: "(string \<times> rule) list" where
  "fieldRules =
     [(''SUL'', no_effect\<lparr>minEmpty := True\<rparr>),
      (''ARO'', no_effect\<lparr>minEmpty := True\<rparr>),
      (''BEN'', no_effect\<lparr>minEmpty := True\<rparr>),
      (''OXY'', no_effect\<lparr>minEmpty := True\<rparr>),
      (''OLEFIN'', no_effect\<lparr>minEmpty := True\<rparr>),
      (''RVP'', no_effect\<lparr>minValue := Some ''0''\<rparr>),
      (''RON'', no_effect\<lparr>maxValue := Some ''inf'', maxReadonly := True\<rparr>),
      (''MON'', no_effect\<lparr>maxValue := Some ''inf'', maxReadonly := True\<rparr>)]"

text \<open>
  \<open>row.cells[0]?.textContent.trim()\<close> is \<open>undefined\<close> for a row without cells, and the
  table is then asked for the key \<open>undefined\<close>. The keys that a plain object inherits hold
  values without any of the four rule fields, so they have no effect either.
\<close>

definition propertyName_p0 :: "node \<Rightarrow> string" where
  "propertyName_p0 row = (case cells row of [] \<Rightarrow> ''undefined'' | c # _ \<Rightarrow> trim (textContent c))"

definition apply_rule_table :: "node \<Rightarrow> node" where
  "apply_rule_table row =
     (case map_of fieldRules (propertyName_p0 row) of
        None \<Rightarrow> row
      | Some rule \<Rightarrow>
          (let row1 = (if minEmpty rule
                       then querySelectorAll_forEach (input_name_ends ''_min'')
                              (\<lambda>a. lock (a\<lparr>val := []\<rparr>)) row
                       else row);
               row2 = (case minValue rule of
                         None \<Rightarrow> row1
                       | Some v \<Rightarrow>
                           if v \<noteq> []
                           then querySelectorAll_forEach (input_name_ends ''_min'')
                                  (\<lambda>a. a\<lparr>val := v\<rparr>) row1
                           else row1)
           in case maxValue rule of
                None \<Rightarrow> row2
              | Some v \<Rightarrow>
                  if v \<noteq> [] \<and> maxReadonly rule
                  then querySelectorAll_forEach (input_name_ends ''_max'')
                         (\<lambda>a. lock (a\<lparr>val := v\<rparr>)) row2
                  else row2))"

definition apply_rules_p0 :: "node list \<Rightarrow> node list" where
  "apply_rules_p0 rows = map apply_rule_table rows"

text \<open>
  Processing the rows in another order: \<open>order\<close> lists the positions of the rows in the
  order in which the callback visits them.
\<close>

definition apply_rules_in_order :: "nat list \<Rightarrow> node list \<Rightarrow> node list" where
  "apply_rules_in_order order rows = fold (\<lambda>i rs. rs[i := apply_rule_table (rs ! i)]) order rows"

text \<open>The inputs below a row, in document order.\<close>

definition row_inputs :: "node \<Rightarrow> attrs list" where
  "row_inputs row = concat (map inputs_of (childNodes row))"

text \<open>An example row of the specification table: the property cell, then a cell per input.\<close>

definition spec_row :: "string \<Rightarrow> (string \<times> string) list \<Rightarrow> node" where
  "spec_row prop inputs =
     fold (\<lambda>(n, v) row. appendChild row (appendChild (createElement ''td'') (text_input n v [])))
       inputs
       (appendChild (createElement ''tr'') (appendChild (createElement ''td'') (Text prop)))"

definition example_rows :: "node list" where
  "example_rows =
     [spec_row ''SUL'' [(''spec_SUL_min'', ''1''), (''spec_SUL_max'', ''10'')],
      spec_row '' RVP '' [(''spec_RVP_min'', ''5''), (''spec_RVP_max'', ''9'')],
      spec_row ''RON'' [(''spec_RON_min'', ''91''), (''spec_RON_max'', ''99'')],
      spec_row ''OCT'' [(''spec_OCT_min'', ''2''), (''spec_OCT_max'', ''3'')]]"

text \<open>A specification table whose second row has no cell.\<close>

definition rows_with_empty_tr :: "node list" where
  "rows_with_empty_tr =
     [spec_row ''SUL'' [(''a_min'', ''1''), (''a_max'', ''5'')],
      createElement ''tr'',
      spec_row ''RON'' [(''b_min'', ''90''), (''b_max'', ''9'')]]"

definition input_state :: "node \<Rightarrow> (string option \<times> string \<times> bool) list" where
  "input_state row = map (\<lambda>a. (name a, val a, readOnly a)) (row_inputs row)"

text \<open>Two invocations in a row on the same input.\<close>

definition two_calls ::
  "(node \<Rightarrow> nat list \<Rightarrow> error + node \<times> nat list) \<Rightarrow> node \<Rightarrow> nat list
     \<Rightarrow> error + node \<times> nat list" where
  "two_calls mk root input =
     (case mk root input of Inl e \<Rightarrow> Inl e | Inr (root', input') \<Rightarrow> mk root' input')"

section \<open>Properties of the resize controller\<close>

lemmas dom_simps = createElement_def text_input_def td_text_left_def classList_add_def
  wrap_input_def resize_handle_def numeric_classes_def

lemma closest_update_at:
  "node_at r p = Some n \<Longrightarrow> has_class c (f n) \<Longrightarrow> closest c (update_at p f r) (p @ q)"
proof (induction p arbitrary: r)
  case Nil
  then show ?case by (cases q; cases "f n") auto
next
  case (Cons i p)
  then show ?case by (cases r) (auto split: if_splits)
qed

lemma has_class_wrap_input: "has_class ''resizable-input-container'' (wrap_input n)"
  by (simp add: wrap_input_def createElement_def)

text \<open>
  In \<open>src/unnamed/part_000\<close> a second invocation on the input, at the place the first one
  moved it to, changes nothing.
\<close>

lemma makeInputResizable_p0_idem:
  assumes "makeInputResizable_p0 r p = Inr (r', p')"
  shows "makeInputResizable_p0 r' p' = Inr (r', p')"
proof (cases "closest ''resizable-input-container'' r p")
  case True
  with assms show ?thesis by (simp add: makeInputResizable_p0_def)
next
  case False
  with assms have "makeInputResizable r p = Inr (r', p')"
    by (simp add: makeInputResizable_p0_def)
  then obtain n where n: "node_at r p = Some n"
    and r': "r' = update_at p wrap_input r" and p': "p' = p @ [0]"
    by (auto simp: makeInputResizable_def split: list.splits option.splits)
  have "closest ''resizable-input-container'' r' p'"
    unfolding r' p' using n has_class_wrap_input by (rule closest_update_at)
  then show ?thesis by (simp add: makeInputResizable_p0_def)
qed

lemma makeInputResizable_p0_second_call:
  "map_sum id (\<lambda>(r, p). (count_class ''resizable-input-container'' r, count_class ''resize-handle'' r))
     (two_calls makeInputResizable_p0
        (appendChild td_text_left (text_input ''x'' ''1'' numeric_classes)) [0])
   = Inr (1, 1)"
  by (simp add: two_calls_def makeInputResizable_p0_def makeInputResizable_def dom_simps)

text \<open>
  Claim C8: \<open>makeInputResizable\<close> is idempotent, a second invocation on an already wrapped
  input is a no-op and the input keeps exactly one container and one handle.
  In \<open>static/js/main.js\<close> the function has no guard: for an input in a table cell, the second
  invocation wraps the input again, and the cell then holds two containers and two handles.
\<close>

theorem makeInputResizable_second_call_wraps_again:
  "map_sum id (\<lambda>(r, p). (count_class ''resizable-input-container'' r, count_class ''resize-handle'' r))
     (two_calls makeInputResizable
        (appendChild td_text_left (text_input ''x'' ''1'' numeric_classes)) [0])
   = Inr (2, 2)"
  by (simp add: two_calls_def makeInputResizable_def dom_simps)

section \<open>Properties of the value-restore guard\<close>

lemma trim_Nil [simp]: "trim [] = []"
  by (simp add: trim_def)

lemma guard_run_snoc: "guard_run blur v (es @ [e]) = guard_step blur e (guard_run blur v es)"
  by (simp add: guard_run_def)

lemma guard_run_append:
  "guard_run blur v (es1 @ es2) = fold (guard_step blur) es2 (guard_run blur v es1)"
  by (simp add: guard_run_def)

text \<open>Both listeners leave the same value and the same \<open>lastValue\<close>.\<close>

lemma guard_run_p0_same:
  "inputValue (guard_run on_blur_p0 v es) = inputValue (guard_run on_blur v es)
   \<and> lastValue (guard_run on_blur_p0 v es) = lastValue (guard_run on_blur v es)"
proof (induction es rule: rev_induct)
  case Nil
  show ?case by (simp add: guard_run_def)
next
  case (snoc e es)
  then show ?case
    by (cases e) (simp_all add: guard_run_snoc on_blur_def on_blur_p0_def Let_def)
qed

lemma on_blur_keeps_lastValue: "lastValue g \<noteq> [] \<Longrightarrow> lastValue (on_blur g) \<noteq> []"
  by (simp add: on_blur_def Let_def)

lemma guard_step_keeps_lastValue:
  "lastValue g \<noteq> [] \<Longrightarrow> lastValue (guard_step on_blur e g) \<noteq> []"
  by (cases e) (simp_all add: on_blur_keeps_lastValue)

lemma fold_keeps_lastValue:
  "lastValue g \<noteq> [] \<Longrightarrow> lastValue (fold (guard_step on_blur) es g) \<noteq> []"
  by (induction es arbitrary: g) (simp_all add: guard_step_keeps_lastValue)

lemma on_blur_nonblank:
  "trim (inputValue g) \<noteq> [] \<Longrightarrow> lastValue (on_blur g) \<noteq> [] \<and> inputValue (on_blur g) \<noteq> []"
  by (auto simp: on_blur_def Let_def)

lemma on_blur_nonempty: "lastValue g \<noteq> [] \<Longrightarrow> inputValue (on_blur g) \<noteq> []"
  by (auto simp: on_blur_def Let_def)

text \<open>
  Claim C5, as stated: after any blur the value of a guarded field is not the empty string,
  provided the field held a non-empty value at least once before that blur.
  This fails. A field attached empty that holds a single space at the blur is reset to the
  empty string, and so is a field attached empty in which \<open>7\<close> was typed and deleted again
  before the blur.
\<close>

theorem guard_empty_after_blur:
  "inputValue (guard_run on_blur [] [SetValue '' '']) \<noteq> []
   \<and> inputValue (guard_run on_blur [] [SetValue '' '', Blur]) = []
   \<and> inputValue (guard_run on_blur [] [SetValue ''7'']) \<noteq> []
   \<and> inputValue (guard_run on_blur [] [SetValue ''7'', SetValue [], Blur]) = []"
  by (simp add: guard_run_def guard_attach_def on_blur_def trim_def is_ws_def)

text \<open>
  Claim C5, amended: at each blur, a field whose trimmed value is empty is reset to the
  last-known value, and otherwise the last-known value becomes the trimmed value. After any
  blur the value is not the empty string, provided the value captured when the guard was
  attached was non-empty, or the trimmed value was non-empty at that blur or at an earlier
  one. This holds for the listeners of both files.
\<close>

theorem guard_blur_contract:
  assumes "v \<noteq> [] \<or> trim (inputValue (guard_run on_blur v es)) \<noteq> []
           \<or> (\<exists>es1 es2. es = es1 @ Blur # es2 \<and> trim (inputValue (guard_run on_blur v es1)) \<noteq> [])"
  shows "on_blur g =
           (if trim (inputValue g) = []
            then g\<lparr>inputValue := lastValue g,
                   guardLog := guardLog g @ [ConsoleLog (''Input restored to last value: '' @ lastValue g)]\<rparr>
            else g\<lparr>lastValue := trim (inputValue g)\<rparr>)
         \<and> on_blur_p0 g =
           (if trim (inputValue g) = [] then g\<lparr>inputValue := lastValue g\<rparr>
            else g\<lparr>lastValue := trim (inputValue g)\<rparr>)
         \<and> inputValue (guard_run on_blur v (es @ [Blur])) \<noteq> []
         \<and> inputValue (guard_run on_blur_p0 v (es @ [Blur])) \<noteq> []"
proof -
  let ?g = "guard_run on_blur v es"
  have last: "lastValue ?g \<noteq> [] \<or> trim (inputValue ?g) \<noteq> []"
    using assms
  proof (elim disjE exE conjE)
    assume "v \<noteq> []"
    then have "lastValue (guard_attach v) \<noteq> []" by (simp add: guard_attach_def)
    then show ?thesis unfolding guard_run_def by (simp add: fold_keeps_lastValue)
  next
    assume "trim (inputValue ?g) \<noteq> []"
    then show ?thesis by simp
  next
    fix es1 es2
    assume es: "es = es1 @ Blur # es2"
      and nb: "trim (inputValue (guard_run on_blur v es1)) \<noteq> []"
    have "lastValue (on_blur (guard_run on_blur v es1)) \<noteq> []"
      using nb by (simp add: on_blur_nonblank)
    then have "lastValue (fold (guard_step on_blur) es2 (on_blur (guard_run on_blur v es1))) \<noteq> []"
      by (rule fold_keeps_lastValue)
    then show ?thesis by (simp add: es guard_run_append)
  qed
  have main: "inputValue (guard_run on_blur v (es @ [Blur])) \<noteq> []"
    using last by (auto simp: guard_run_snoc on_blur_nonblank on_blur_nonempty)
  have p0: "inputValue (guard_run on_blur_p0 v (es @ [Blur])) \<noteq> []"
    using main guard_run_p0_same [of v "es @ [Blur]"] by simp
  show ?thesis
    using main p0 by (simp add: on_blur_def on_blur_p0_def Let_def)
qed

theorem guard_blur_contract_witness:
  "trim (inputValue (guard_run on_blur [] [SetValue ''3''])) \<noteq> []
   \<and> inputValue (guard_run on_blur [] ([SetValue ''3'', Blur, SetValue ''  ''] @ [Blur])) \<noteq> []
   \<and> inputValue (guard_run on_blur_p0 [] ([SetValue ''3'', Blur, SetValue ''  ''] @ [Blur])) \<noteq> []"
proof -
  have nb: "trim (inputValue (guard_run on_blur [] [SetValue ''3''])) \<noteq> []"
    by (simp add: guard_run_def guard_attach_def trim_def is_ws_def)
  have "\<exists>es1 es2. [SetValue ''3'', Blur, SetValue ''  ''] = es1 @ Blur # es2
          \<and> trim (inputValue (guard_run on_blur [] es1)) \<noteq> []"
    by (rule exI [of _ "[SetValue ''3'']"], rule exI [of _ "[SetValue ''  '']"]) (simp add: nb)
  then show ?thesis
    using nb guard_blur_contract [of "[]" "[SetValue ''3'', Blur, SetValue ''  '']"] by blast
qed

section \<open>Properties of the row factory\<close>

lemma numeric_cell_append:
  "numeric_cell n v (Element a ks) = Inr (Element a (ks @ [guarded_cell n v]))"
  by (simp add: numeric_cell_def Let_def makeInputResizable_def restoreLastValue_def guarded_cell_def
      dom_simps)

lemma numeric_cell_p0_append:
  "''resizable-input-container'' \<notin> set (className a) \<Longrightarrow>
   numeric_cell_p0 n v (Element a ks) = Inr (Element a (ks @ [guarded_cell n v]))"
  by (simp add: numeric_cell_p0_def createInputCell_def Let_def makeInputResizable_p0_def
      makeInputResizable_def restoreLastValue_def guarded_cell_def dom_simps)

lemma forEachE_numeric_cell:
  "forEachE (\<lambda>x. numeric_cell (fst (g x)) (snd (g x))) xs (Element a ks)
     = Inr (Element a (ks @ map (\<lambda>x. guarded_cell (fst (g x)) (snd (g x))) xs))"
  by (induction xs arbitrary: ks) (simp_all add: numeric_cell_append)

lemma forEachE_numeric_cell_p0:
  "''resizable-input-container'' \<notin> set (className a) \<Longrightarrow>
   forEachE (\<lambda>x. numeric_cell_p0 (fst (g x)) (snd (g x))) xs (Element a ks)
     = Inr (Element a (ks @ map (\<lambda>x. guarded_cell (fst (g x)) (snd (g x))) xs))"
  by (induction xs arbitrary: ks) (simp_all add: numeric_cell_p0_append)

lemma identity_cell_p0_eq: "identity_cell_p0 n v = identity_cell n v"
  by (simp add: identity_cell_p0_def identity_cell_def createInputCell_def Let_def dom_simps)

lemma newRow_of_eq: "newRow_of i props = Inr (Element tr_attrs (row_cells i props))"
  using forEachE_numeric_cell [where g = "\<lambda>x. x"]
    forEachE_numeric_cell [where g = "\<lambda>p. (field_name (''NC'' @ toString i) (''property_'' @ p), property_default p)"]
  by (simp add: newRow_of_def row_cells_def Let_def createElement_def tr_attrs_def case_prod_unfold)

lemma newRow_of_p0_eq: "newRow_of_p0 i props = newRow_of i props"
  using forEachE_numeric_cell_p0 [where g = "\<lambda>x. x"]
    forEachE_numeric_cell_p0 [where g = "\<lambda>p. (field_name (''NC'' @ toString i) (''property_'' @ p), property_default p)"]
  by (simp add: newRow_of_eq newRow_of_p0_def row_cells_def Let_def createElement_def tr_attrs_def
      case_prod_unfold identity_cell_p0_eq)

lemma named_inputs_Element:
  "named_inputs (Element a ks) =
     (if tag a = ''input'' then (case name a of None \<Rightarrow> [] | Some k \<Rightarrow> [(k, val a)]) else [])
     @ concat (map named_inputs ks)"
proof -
  have "concat (map (\<lambda>a. case name a of None \<Rightarrow> [] | Some k \<Rightarrow> [(k, val a)])
                  (concat (map inputs_of ks)))
        = concat (map named_inputs ks)"
    by (induction ks) (simp_all add: named_inputs_def)
  then show ?thesis by (simp add: named_inputs_def)
qed

lemma named_inputs_guarded_cell: "named_inputs (guarded_cell n v) = [(n, v)]"
  by (simp add: guarded_cell_def named_inputs_Element resize_handle_def createElement_def)

lemma named_inputs_identity_cell: "named_inputs (identity_cell n v) = [(n, v)]"
  by (simp add: identity_cell_def named_inputs_Element Let_def dom_simps)

lemma concat_map_singleton: "concat (map (\<lambda>x. [f x]) xs) = map f xs"
  by (induction xs) simp_all

lemma named_inputs_row:
  "named_inputs (Element tr_attrs (row_cells i props)) =
     (field_name (''NC'' @ toString i) ''name'', ''NC'' @ toString i)
     # (field_name (''NC'' @ toString i) ''tag'', ''NewComponent'' @ toString i)
     # inputFields (''NC'' @ toString i) @ map (property_field (''NC'' @ toString i)) props"
  by (simp add: named_inputs_Element tr_attrs_def row_cells_def Let_def named_inputs_identity_cell
      named_inputs_guarded_cell comp_def concat_map_singleton inputFields_def property_field_def)

lemma inputs_of_guarded_cell: "length (inputs_of (guarded_cell n v)) = 1"
  by (simp add: guarded_cell_def resize_handle_def createElement_def)

lemma inputs_of_identity_cell: "length (inputs_of (identity_cell n v)) = 1"
  by (simp add: identity_cell_def Let_def dom_simps)

lemma length_concat_ones: "(\<And>x. x \<in> set xs \<Longrightarrow> length (f x) = 1) \<Longrightarrow> length (concat (map f xs)) = length xs"
  by (induction xs) simp_all

lemma inputs_of_row: "length (inputs_of (Element tr_attrs (row_cells i props))) = 6 + length props"
  by (simp add: tr_attrs_def row_cells_def Let_def inputs_of_identity_cell inputs_of_guarded_cell
      inputFields_def length_concat_ones comp_def)

lemma showMessage_document [simp]:
  "components_tbody (showMessage m t d) = components_tbody d"
  "components_thead_row (showMessage m t d) = components_thead_row d"
  "components_tbody (showMessage_p0 m t d) = components_tbody d"
  "components_thead_row (showMessage_p0 m t d) = components_thead_row d"
  by (simp_all add: showMessage_def showMessage_p0_def console_error_def split: option.splits)

lemma addComponentRow_appends:
  assumes "components_tbody d = Some (Element a ks)"
    and "propertyHeaders (components_thead_row d) = Some props"
  shows "addComponentRow d =
           Inr (showMessage (added_message (length (children (Element a ks)) + 1)) ''success''
                  (d\<lparr>components_tbody :=
                       Some (Element a (ks @ [Element tr_attrs
                          (row_cells (length (children (Element a ks)) + 1) props)]))\<rparr>))"
    and "addComponentRow_p0 d =
           Inr (showMessage_p0 (added_message (length (children (Element a ks)) + 1)) ''success''
                  (d\<lparr>components_tbody :=
                       Some (Element a (ks @ [Element tr_attrs
                          (row_cells (length (children (Element a ks)) + 1) props)]))\<rparr>))"
  using assms
  by (simp_all add: addComponentRow_def addComponentRow_p0_def newRow_of_p0_eq newRow_of_eq Let_def)

lemma field_name_inject [simp]: "field_name t s = field_name t s' \<longleftrightarrow> s = s'"
  by (simp add: field_name_def)

lemma findIndex_None: "findIndex P xs = None \<longleftrightarrow> list_all (\<lambda>x. \<not> P x) xs"
  by (induction xs) simp_all

text \<open>
  Claim C1: for every property list \<open>S\<close> read from the table header, the row that one
  invocation of \<open>addComponentRow\<close> appends holds, in this order, one named input for each of
  the suffixes \<open>name\<close>, \<open>tag\<close>, \<open>min_comp\<close>, \<open>availability\<close>, \<open>factor\<close>, \<open>cost\<close> and one
  input named \<open>component_<tag>_property_<p>\<close> for each \<open>p\<close> of \<open>S\<close> in the order of \<open>S\<close>,
  and no other input; each of the six fixed names occurs once. Both files build the same row.
\<close>

theorem new_row_field_names:
  assumes "components_tbody d = Some (Element a ks)"
    and "propertyHeaders (components_thead_row d) = Some S"
  shows "let t = ''NC'' @ toString (length (children (Element a ks)) + 1)
         in \<exists>d' d0 newRow.
              addComponentRow d = Inr d' \<and> addComponentRow_p0 d = Inr d0
              \<and> components_tbody d' = Some (Element a (ks @ [newRow]))
              \<and> components_tbody d0 = Some (Element a (ks @ [newRow]))
              \<and> map fst (named_inputs newRow) =
                   map (\<lambda>sfx. ''component_'' @ t @ ''_'' @ sfx)
                     [''name'', ''tag'', ''min_comp'', ''availability'', ''factor'', ''cost'']
                   @ map (\<lambda>p. ''component_'' @ t @ ''_property_'' @ p) S
              \<and> length (inputs_of newRow) = 6 + length S
              \<and> list_all (\<lambda>sfx. count_list (map fst (named_inputs newRow))
                                     (''component_'' @ t @ ''_'' @ sfx) = 1)
                   [''name'', ''tag'', ''min_comp'', ''availability'', ''factor'', ''cost'']"
proof -
  let ?i = "length (children (Element a ks)) + 1"
  let ?t = "''NC'' @ toString ?i"
  let ?row = "Element tr_attrs (row_cells ?i S)"
  have names: "map fst (named_inputs ?row) =
      map (\<lambda>sfx. ''component_'' @ ?t @ ''_'' @ sfx)
        [''name'', ''tag'', ''min_comp'', ''availability'', ''factor'', ''cost'']
      @ map (\<lambda>p. ''component_'' @ ?t @ ''_property_'' @ p) S"
    by (simp add: named_inputs_row inputFields_def property_field_def field_name_def comp_def)
  have once: "list_all (\<lambda>sfx. count_list (map fst (named_inputs ?row))
                                     (''component_'' @ ?t @ ''_'' @ sfx) = 1)
                   [''name'', ''tag'', ''min_comp'', ''availability'', ''factor'', ''cost'']"
    unfolding names by (auto simp: count_list_0_iff)
  show ?thesis
    unfolding Let_def
    apply (rule exI [of _ "showMessage (added_message ?i) ''success''
                  (d\<lparr>components_tbody := Some (Element a (ks @ [?row]))\<rparr>)"])
    apply (rule exI [of _ "showMessage_p0 (added_message ?i) ''success''
                  (d\<lparr>components_tbody := Some (Element a (ks @ [?row]))\<rparr>)"])
    apply (rule exI [of _ ?row])
    using addComponentRow_appends [OF assms] names once inputs_of_row [of ?i S]
    apply simp
    done
qed


lemmas example_simps = example_doc_def propertyHeaders_def header_row_def th_def createElement_def
  cells_def trim_def is_ws_def children_def

theorem new_row_field_names_witness:
  "\<exists>d' d0 newRow.
      addComponentRow (example_doc (Some [''Tag'', '' Cost '', ''SUL'', ''RON '', ''OCT''])) = Inr d'
      \<and> addComponentRow_p0 (example_doc (Some [''Tag'', '' Cost '', ''SUL'', ''RON '', ''OCT''])) = Inr d0
      \<and> components_tbody d' = Some (appendChild (createElement ''tbody'') newRow)
      \<and> components_tbody d0 = Some (appendChild (createElement ''tbody'') newRow)
      \<and> map fst (named_inputs newRow) =
           [''component_NC1_name'', ''component_NC1_tag'', ''component_NC1_min_comp'',
            ''component_NC1_availability'', ''component_NC1_factor'', ''component_NC1_cost'',
            ''component_NC1_property_SUL'', ''component_NC1_property_RON'',
            ''component_NC1_property_OCT'']
      \<and> length (inputs_of newRow) = 9"
proof -
  let ?d = "example_doc (Some [''Tag'', '' Cost '', ''SUL'', ''RON '', ''OCT''])"
  have tb: "components_tbody ?d = Some (Element (\<lparr>tag = ''tbody'', className = [], name = None,
              val = [], readOnly = False, listeners = []\<rparr>) [])"
    by (simp add: example_simps)
  have ph: "propertyHeaders (components_thead_row ?d) = Some [''SUL'', ''RON'', ''OCT'']"
    by (simp add: example_simps)
  from new_row_field_names [OF tb ph] obtain d' d0 newRow where
    "addComponentRow ?d = Inr d'" "addComponentRow_p0 ?d = Inr d0"
    "components_tbody d' = Some (appendChild (createElement ''tbody'') newRow)"
    "components_tbody d0 = Some (appendChild (createElement ''tbody'') newRow)"
    "map fst (named_inputs newRow) =
           [''component_NC1_name'', ''component_NC1_tag'', ''component_NC1_min_comp'',
            ''component_NC1_availability'', ''component_NC1_factor'', ''component_NC1_cost'',
            ''component_NC1_property_SUL'', ''component_NC1_property_RON'',
            ''component_NC1_property_OCT'']"
    "length (inputs_of newRow) = 9"
    by (auto simp add: Let_def children_def toString.simps digit_char_def createElement_def)
  then show ?thesis by (intro exI conjI)
qed


text \<open>
  Claim C2: on a table body with \<open>N\<close> rows the new row carries the tag \<open>NC<N+1>\<close> and the
  display name \<open>NewComponent<N+1>\<close>; \<open>min_comp\<close> and \<open>availability\<close> default to \<open>0\<close>,
  \<open>factor\<close> to \<open>1\<close>, \<open>cost\<close> to \<open>25.00\<close>; a property field defaults to the empty string for
  SUL, ARO, BEN, OXY and OLEFIN, to \<open>inf\<close> for RON and MON, and to \<open>0\<close> for any other property.
\<close>

theorem new_row_defaults:
  assumes "components_tbody d = Some (Element a ks)"
    and "propertyHeaders (components_thead_row d) = Some S"
  shows "let i = length (children (Element a ks)) + 1; t = ''NC'' @ toString i
         in \<exists>d' d0 newRow.
              addComponentRow d = Inr d' \<and> addComponentRow_p0 d = Inr d0
              \<and> components_tbody d' = Some (Element a (ks @ [newRow]))
              \<and> components_tbody d0 = Some (Element a (ks @ [newRow]))
              \<and> named_inputs newRow =
                   [(''component_'' @ t @ ''_name'', t),
                    (''component_'' @ t @ ''_tag'', ''NewComponent'' @ toString i),
                    (''component_'' @ t @ ''_min_comp'', ''0''),
                    (''component_'' @ t @ ''_availability'', ''0''),
                    (''component_'' @ t @ ''_factor'', ''1''),
                    (''component_'' @ t @ ''_cost'', ''25.00'')]
                   @ map (\<lambda>p. (''component_'' @ t @ ''_property_'' @ p,
                                if p \<in> {''SUL'', ''ARO'', ''BEN'', ''OXY'', ''OLEFIN''} then []
                                else if p \<in> {''RON'', ''MON''} then ''inf''
                                else ''0'')) S"
proof -
  let ?i = "length (children (Element a ks)) + 1"
  let ?t = "''NC'' @ toString ?i"
  let ?row = "Element tr_attrs (row_cells ?i S)"
  have vals: "named_inputs ?row =
                   [(''component_'' @ ?t @ ''_name'', ?t),
                    (''component_'' @ ?t @ ''_tag'', ''NewComponent'' @ toString ?i),
                    (''component_'' @ ?t @ ''_min_comp'', ''0''),
                    (''component_'' @ ?t @ ''_availability'', ''0''),
                    (''component_'' @ ?t @ ''_factor'', ''1''),
                    (''component_'' @ ?t @ ''_cost'', ''25.00'')]
                   @ map (\<lambda>p. (''component_'' @ ?t @ ''_property_'' @ p,
                                if p \<in> {''SUL'', ''ARO'', ''BEN'', ''OXY'', ''OLEFIN''} then []
                                else if p \<in> {''RON'', ''MON''} then ''inf''
                                else ''0'')) S"
    by (simp add: named_inputs_row inputFields_def property_field_def field_name_def
        property_default_def)
  have "addComponentRow d = Inr (showMessage (added_message ?i) ''success''
                  (d\<lparr>components_tbody := Some (Element a (ks @ [?row]))\<rparr>))"
    and "addComponentRow_p0 d = Inr (showMessage_p0 (added_message ?i) ''success''
                  (d\<lparr>components_tbody := Some (Element a (ks @ [?row]))\<rparr>))"
    using addComponentRow_appends [OF assms] by simp_all
  moreover have "components_tbody (showMessage (added_message ?i) ''success''
                  (d\<lparr>components_tbody := Some (Element a (ks @ [?row]))\<rparr>))
                 = Some (Element a (ks @ [?row]))"
    and "components_tbody (showMessage_p0 (added_message ?i) ''success''
                  (d\<lparr>components_tbody := Some (Element a (ks @ [?row]))\<rparr>))
                 = Some (Element a (ks @ [?row]))"
    by simp_all
  ultimately show ?thesis
    unfolding Let_def using vals by (intro exI conjI)
qed

theorem new_row_defaults_witness:
  "\<exists>d' newRow.
      addComponentRow (example_doc (Some [''Cost'', ''SUL'', ''RON'', ''OCT''])) = Inr d'
      \<and> components_tbody d' = Some (appendChild (createElement ''tbody'') newRow)
      \<and> named_inputs newRow =
           [(''component_NC1_name'', ''NC1''), (''component_NC1_tag'', ''NewComponent1''),
            (''component_NC1_min_comp'', ''0''), (''component_NC1_availability'', ''0''),
            (''component_NC1_factor'', ''1''), (''component_NC1_cost'', ''25.00''),
            (''component_NC1_property_SUL'', []), (''component_NC1_property_RON'', ''inf''),
            (''component_NC1_property_OCT'', ''0'')]"
proof -
  let ?d = "example_doc (Some [''Cost'', ''SUL'', ''RON'', ''OCT''])"
  have tb: "components_tbody ?d = Some (Element (\<lparr>tag = ''tbody'', className = [], name = None,
              val = [], readOnly = False, listeners = []\<rparr>) [])"
    by (simp add: example_simps)
  have ph: "propertyHeaders (components_thead_row ?d) = Some [''SUL'', ''RON'', ''OCT'']"
    by (simp add: example_simps)
  from new_row_defaults [OF tb ph] obtain d' newRow where
    "addComponentRow ?d = Inr d'"
    "components_tbody d' = Some (appendChild (createElement ''tbody'') newRow)"
    "named_inputs newRow =
           [(''component_NC1_name'', ''NC1''), (''component_NC1_tag'', ''NewComponent1''),
            (''component_NC1_min_comp'', ''0''), (''component_NC1_availability'', ''0''),
            (''component_NC1_factor'', ''1''), (''component_NC1_cost'', ''25.00''),
            (''component_NC1_property_SUL'', []), (''component_NC1_property_RON'', ''inf''),
            (''component_NC1_property_OCT'', ''0'')]"
    by (auto simp add: Let_def children_def toString.simps digit_char_def createElement_def)
  then show ?thesis by (intro exI conjI)
qed

text \<open>
  Claim C10: in every row that \<open>addComponentRow\<close> creates, the input named
  \<open>component_<tag>_name\<close> holds the tag and the input named \<open>component_<tag>_tag\<close> holds
  the display name, and the two differ.
\<close>

theorem new_row_identity_swapped:
  assumes "components_tbody d = Some (Element a ks)"
    and "propertyHeaders (components_thead_row d) = Some S"
  shows "let i = length (children (Element a ks)) + 1; t = ''NC'' @ toString i
         in \<exists>d' d0 newRow.
              addComponentRow d = Inr d' \<and> addComponentRow_p0 d = Inr d0
              \<and> components_tbody d' = Some (Element a (ks @ [newRow]))
              \<and> components_tbody d0 = Some (Element a (ks @ [newRow]))
              \<and> map_of (named_inputs newRow) (''component_'' @ t @ ''_name'') = Some t
              \<and> map_of (named_inputs newRow) (''component_'' @ t @ ''_tag'')
                  = Some (''NewComponent'' @ toString i)
              \<and> t \<noteq> ''NewComponent'' @ toString i"
proof -
  let ?i = "length (children (Element a ks)) + 1"
  let ?t = "''NC'' @ toString ?i"
  let ?row = "Element tr_attrs (row_cells ?i S)"
  have n: "map_of (named_inputs ?row) (''component_'' @ ?t @ ''_name'') = Some ?t"
    by (simp add: named_inputs_row field_name_def)
  have t: "map_of (named_inputs ?row) (''component_'' @ ?t @ ''_tag'')
             = Some (''NewComponent'' @ toString ?i)"
    by (simp add: named_inputs_row field_name_def)
  have ne: "?t \<noteq> ''NewComponent'' @ toString ?i"
    by simp
  have "addComponentRow d = Inr (showMessage (added_message ?i) ''success''
                  (d\<lparr>components_tbody := Some (Element a (ks @ [?row]))\<rparr>))"
    and "addComponentRow_p0 d = Inr (showMessage_p0 (added_message ?i) ''success''
                  (d\<lparr>components_tbody := Some (Element a (ks @ [?row]))\<rparr>))"
    using addComponentRow_appends [OF assms] by simp_all
  moreover have "components_tbody (showMessage (added_message ?i) ''success''
                  (d\<lparr>components_tbody := Some (Element a (ks @ [?row]))\<rparr>))
                 = Some (Element a (ks @ [?row]))"
    and "components_tbody (showMessage_p0 (added_message ?i) ''success''
                  (d\<lparr>components_tbody := Some (Element a (ks @ [?row]))\<rparr>))
                 = Some (Element a (ks @ [?row]))"
    by simp_all
  ultimately show ?thesis
    unfolding Let_def using n t ne by (intro exI conjI)
qed

theorem new_row_identity_swapped_witness:
  "\<exists>d' newRow.
      addComponentRow (example_doc (Some [''Cost'', ''RVP''])) = Inr d'
      \<and> components_tbody d' = Some (appendChild (createElement ''tbody'') newRow)
      \<and> map_of (named_inputs newRow) ''component_NC1_name'' = Some ''NC1''
      \<and> map_of (named_inputs newRow) ''component_NC1_tag'' = Some ''NewComponent1''"
proof -
  let ?d = "example_doc (Some [''Cost'', ''RVP''])"
  have tb: "components_tbody ?d = Some (Element (\<lparr>tag = ''tbody'', className = [], name = None,
              val = [], readOnly = False, listeners = []\<rparr>) [])"
    by (simp add: example_simps)
  have ph: "propertyHeaders (components_thead_row ?d) = Some [''RVP'']"
    by (simp add: example_simps)
  from new_row_identity_swapped [OF tb ph] obtain d' newRow where
    "addComponentRow ?d = Inr d'"
    "components_tbody d' = Some (appendChild (createElement ''tbody'') newRow)"
    "map_of (named_inputs newRow) ''component_NC1_name'' = Some ''NC1''"
    "map_of (named_inputs newRow) ''component_NC1_tag'' = Some ''NewComponent1''"
    by (auto simp add: Let_def children_def toString.simps digit_char_def createElement_def)
  then show ?thesis by (intro exI conjI)
qed


text \<open>
  Claim C3, as stated: in every state of the document in which no header cell's trimmed text
  is \<open>Cost\<close>, \<open>addComponentRow\<close> aborts before it changes the table body and logs a
  diagnostic.
  This fails where the header row itself is missing: there is then no header cell at all,
  the property list is empty, a row with the six fixed fields is appended and nothing is
  logged.
\<close>

theorem missing_header_row_still_appends:
  "components_thead_row (example_doc None) = None
   \<and> tbody_rows (example_doc None) = []
   \<and> map_sum id (\<lambda>d'. (map (map fst \<circ> named_inputs) (tbody_rows d'), console d'))
        (addComponentRow (example_doc None))
     = Inr ([[''component_NC1_name'', ''component_NC1_tag'', ''component_NC1_min_comp'',
              ''component_NC1_availability'', ''component_NC1_factor'', ''component_NC1_cost'']], [])"
  by code_simp

text \<open>
  Claim C3, amended: in every state of the document in which the last header row exists and
  none of its cells has the trimmed text \<open>Cost\<close>, \<open>addComponentRow\<close> returns with the
  document unchanged but for one diagnostic appended to the console; no row is appended.
\<close>

theorem no_cost_header_aborts:
  assumes "components_thead_row d = Some row"
    and "list_all (\<lambda>th. trim (textContent th) \<noteq> ''Cost'') (cells row)"
  shows "addComponentRow d = Inr (d\<lparr>console := console d @ [ConsoleError
             (if components_tbody d = None then ''Components table body not found.''
              else ''Could not find 'Cost' header to determine property start index.'')]\<rparr>)
         \<and> addComponentRow_p0 d = addComponentRow d"
proof -
  have "findIndex (\<lambda>th. trim (textContent th) = ''Cost'') (cells row) = None"
    using assms(2) by (simp add: findIndex_None)
  then have "propertyHeaders (components_thead_row d) = None"
    using assms(1) by (simp add: propertyHeaders_def)
  then show ?thesis
    by (cases "components_tbody d")
      (simp_all add: addComponentRow_def addComponentRow_p0_def console_error_def)
qed

theorem no_cost_header_aborts_witness:
  "addComponentRow (example_doc (Some [''Tag'', ''Price'', ''SUL'']))
     = Inr ((example_doc (Some [''Tag'', ''Price'', ''SUL'']))
              \<lparr>console := [ConsoleError ''Could not find 'Cost' header to determine property start index.'']\<rparr>)"
proof -
  let ?d = "example_doc (Some [''Tag'', ''Price'', ''SUL''])"
  have r: "components_thead_row ?d = Some (header_row [''Tag'', ''Price'', ''SUL''])"
    by (simp add: example_doc_def)
  have c: "list_all (\<lambda>th. trim (textContent th) \<noteq> ''Cost'') (cells (header_row [''Tag'', ''Price'', ''SUL'']))"
    by (simp add: example_simps)
  have "console ?d = []" and "components_tbody ?d \<noteq> None" by (simp_all add: example_doc_def)
  with no_cost_header_aborts [OF r c] show ?thesis by simp
qed

lemma children_snoc_Element:
  "length (children (Element a (ks @ [Element b cs]))) = length (children (Element a ks)) + 1"
  by (simp add: children_def)

lemma upt_rows: "f 0 # map (\<lambda>j. f (Suc j)) [0..<k] = map f [0..<Suc k]"
proof -
  have "map f [0..<Suc k] = f 0 # map f [Suc 0..<Suc k]"
    by (simp add: upt_conv_Cons del: upt_Suc)
  also have "map f [Suc 0..<Suc k] = map (\<lambda>j. f (Suc j)) [0..<k]"
    by (simp add: map_Suc_upt [symmetric] del: upt_Suc)
  finally show ?thesis by simp
qed

lemma addRows_rows:
  assumes "components_tbody d = Some (Element a ks)"
    and "propertyHeaders (components_thead_row d) = Some S"
  shows "\<exists>d'. addRows k d = Inr d' \<and> components_thead_row d' = components_thead_row d
           \<and> components_tbody d' =
               Some (Element a (ks @ map (\<lambda>j. Element tr_attrs
                       (row_cells (length (children (Element a ks)) + j + 1) S)) [0..<k]))"
  using assms
proof (induction k arbitrary: d ks)
  case 0
  then show ?case by simp
next
  case (Suc k)
  let ?n = "length (children (Element a ks))"
  let ?row = "\<lambda>j. Element tr_attrs (row_cells (?n + j + 1) S)"
  let ?d1 = "showMessage (added_message (?n + 1)) ''success''
               (d\<lparr>components_tbody := Some (Element a (ks @ [?row 0]))\<rparr>)"
  have step: "addComponentRow d = Inr ?d1"
    using addComponentRow_appends(1) [OF Suc.prems] by simp
  have tb1: "components_tbody ?d1 = Some (Element a ((ks @ [?row 0])))" by simp
  have th1: "components_thead_row ?d1 = components_thead_row d" by simp
  have ph1: "propertyHeaders (components_thead_row ?d1) = Some S"
    using Suc.prems(2) by simp
  from Suc.IH [OF tb1 ph1] obtain d' where
    run: "addRows k ?d1 = Inr d'" and th': "components_thead_row d' = components_thead_row ?d1"
    and tb': "components_tbody d' =
               Some (Element a ((ks @ [?row 0]) @ map (\<lambda>j. Element tr_attrs
                       (row_cells (length (children (Element a (ks @ [?row 0]))) + j + 1) S)) [0..<k]))"
    by blast
  have "[?row 0] @ map (\<lambda>j. Element tr_attrs
            (row_cells (length (children (Element a (ks @ [?row 0]))) + j + 1) S)) [0..<k]
        = map ?row [0..<Suc k]"
    using upt_rows [of ?row k] by (simp add: children_snoc_Element del: upt_Suc)
  then have "components_tbody d' = Some (Element a (ks @ map ?row [0..<Suc k]))"
    using tb' by (simp del: upt_Suc)
  moreover have "addRows (Suc k) d = Inr d'" using step run by simp
  moreover have "components_thead_row d' = components_thead_row d" using th' th1 by simp
  ultimately show ?case by blast
qed

lemma property_names_row:
  "drop 6 (map fst (named_inputs (Element tr_attrs (row_cells i S))))
     = map (\<lambda>p. ''component_NC'' @ toString i @ ''_property_'' @ p) S"
  by (simp add: named_inputs_row inputFields_def property_field_def field_name_def comp_def)

text \<open>
  Claim C7, as stated: the property list is derived once, and every invocation of
  \<open>addComponentRow\<close> uses the list read the first time whatever happens to the header in
  between.
  This fails: with the header \<open>Cost, A\<close> at the first invocation and \<open>Cost, B\<close> at the
  second, the second row gets the property field \<open>B\<close>, not \<open>A\<close>.
\<close>

theorem later_row_follows_changed_header:
  "map_sum id (\<lambda>d. map (\<lambda>r. drop 6 (map fst (named_inputs r))) (tbody_rows d))
     (add_change_add (Some (header_row [''Cost'', ''B''])) (example_doc (Some [''Cost'', ''A''])))
   = Inr [[''component_NC1_property_A''], [''component_NC2_property_B'']]"
  by code_simp

text \<open>
  Claim C7, amended: every invocation of \<open>addComponentRow\<close> derives the property list from
  the header as it is at that invocation and leaves the header unchanged; so in any number
  of invocations with no change of the header in between, every new row gets the same
  ordered property list.
\<close>

theorem rows_follow_current_header:
  assumes "components_tbody d = Some (Element a ks)"
    and "propertyHeaders (components_thead_row d) = Some S"
  shows "\<exists>d' rows. addRows k d = Inr d'
           \<and> components_thead_row d' = components_thead_row d
           \<and> components_tbody d' = Some (Element a (ks @ rows))
           \<and> length rows = k
           \<and> (\<forall>j<k. drop 6 (map fst (named_inputs (rows ! j)))
                       = map (\<lambda>p. ''component_NC''
                                     @ toString (length (children (Element a ks)) + j + 1)
                                     @ ''_property_'' @ p) S)"
proof -
  let ?rows = "map (\<lambda>j. Element tr_attrs
                 (row_cells (length (children (Element a ks)) + j + 1) S)) [0..<k]"
  from addRows_rows [OF assms, of k] obtain d' where
    "addRows k d = Inr d'" "components_thead_row d' = components_thead_row d"
    "components_tbody d' = Some (Element a (ks @ ?rows))"
    by blast
  moreover have "length ?rows = k" by simp
  moreover have "\<forall>j<k. drop 6 (map fst (named_inputs (?rows ! j)))
                       = map (\<lambda>p. ''component_NC''
                                     @ toString (length (children (Element a ks)) + j + 1)
                                     @ ''_property_'' @ p) S"
    by (simp add: property_names_row)
  ultimately show ?thesis by blast
qed

theorem rows_follow_current_header_witness:
  "\<exists>d' r1 r2. addRows 2 (example_doc (Some [''Cost'', ''A'', ''RON''])) = Inr d'
     \<and> components_thead_row d' = Some (header_row [''Cost'', ''A'', ''RON''])
     \<and> tbody_rows d' = [r1, r2]
     \<and> drop 6 (map fst (named_inputs r1)) = [''component_NC1_property_A'', ''component_NC1_property_RON'']
     \<and> drop 6 (map fst (named_inputs r2)) = [''component_NC2_property_A'', ''component_NC2_property_RON'']"
proof -
  let ?d = "example_doc (Some [''Cost'', ''A'', ''RON''])"
  have tb: "components_tbody ?d = Some (Element (\<lparr>tag = ''tbody'', className = [], name = None,
              val = [], readOnly = False, listeners = []\<rparr>) [])"
    by (simp add: example_simps)
  have ph: "propertyHeaders (components_thead_row ?d) = Some [''A'', ''RON'']"
    by (simp add: example_simps)
  from rows_follow_current_header [OF tb ph, of 2] obtain d' rows where
    run: "addRows 2 ?d = Inr d'"
    and th': "components_thead_row d' = components_thead_row ?d"
    and tb': "components_tbody d' = Some (Element (\<lparr>tag = ''tbody'', className = [], name = None,
              val = [], readOnly = False, listeners = []\<rparr>) ([] @ rows))"
    and len: "length rows = 2"
    and names: "\<forall>j<2. drop 6 (map fst (named_inputs (rows ! j)))
                  = map (\<lambda>p. ''component_NC'' @ toString (length (children (Element (\<lparr>tag = ''tbody'', className = [], name = None,
              val = [], readOnly = False, listeners = []\<rparr>) [])) + j + 1) @ ''_property_'' @ p) [''A'', ''RON'']"
    by blast
  from len obtain r1 r2 where rows: "rows = [r1, r2]"
    by (cases rows; cases "tl rows"; cases "tl (tl rows)") auto
  have n1: "drop 6 (map fst (named_inputs r1)) = [''component_NC1_property_A'', ''component_NC1_property_RON'']"
    using names [rule_format, of 0] by (simp add: rows children_def toString.simps digit_char_def)
  have n2: "drop 6 (map fst (named_inputs r2)) = [''component_NC2_property_A'', ''component_NC2_property_RON'']"
    using names [rule_format, of 1] by (simp add: rows children_def toString.simps digit_char_def)
  have el: "is_element r1 \<and> is_element r2"
    using n1 n2 by (cases r1; cases r2) (simp_all add: named_inputs_def)
  have "tbody_rows d' = [r1, r2]"
    using tb' el by (simp add: tbody_rows_def rows children_def)
  moreover have "components_thead_row d' = Some (header_row [''Cost'', ''A'', ''RON''])"
    using th' by (simp add: example_doc_def)
  ultimately show ?thesis using run n1 n2 by blast
qed

section \<open>Properties of the persistence store\<close>

lemma set_insert_key: "set (insert_key k v obj) = insert (k, v) (set obj)"
  by (induction obj) (auto split: if_splits)

lemma distinct_insert_key:
  "k \<notin> fst ` set obj \<Longrightarrow> distinct (map fst obj) \<Longrightarrow> distinct (map fst (insert_key k v obj))"
proof (induction obj)
  case Nil
  then show ?case by simp
next
  case (Cons kv obj)
  have "fst ` set (insert_key k v obj) = insert k (fst ` set obj)"
    by (simp add: set_insert_key)
  with Cons show ?case by (cases kv) (auto split: if_splits)
qed

lemma fold_obj_set_distinct:
  "distinct (map fst xs) \<Longrightarrow> distinct (map fst acc) \<Longrightarrow> fst ` set xs \<inter> fst ` set acc = {} \<Longrightarrow>
   list_all (\<lambda>kv. fst kv \<noteq> ''__proto__'') xs \<Longrightarrow>
   distinct (map fst (fold (\<lambda>(key, v). obj_set key v) xs acc))
   \<and> set (fold (\<lambda>(key, v). obj_set key v) xs acc) = set acc \<union> set xs"
proof (induction xs arbitrary: acc)
  case Nil
  then show ?case by simp
next
  case (Cons x xs)
  obtain k v where x: "x = (k, v)" by (cases x)
  have new: "k \<notin> fst ` set acc" using Cons.prems(3) by (auto simp: x)
  then have step: "obj_set k v acc = insert_key k v acc"
    using Cons.prems(4) by (simp add: obj_set_def x)
  have d: "distinct (map fst (insert_key k v acc))"
    using new Cons.prems(2) by (rule distinct_insert_key)
  have disj: "fst ` set xs \<inter> fst ` set (insert_key k v acc) = {}"
    using Cons.prems(1,3) by (auto simp: x set_insert_key)
  have "distinct (map fst (fold (\<lambda>(key, v). obj_set key v) xs (insert_key k v acc)))
        \<and> set (fold (\<lambda>(key, v). obj_set key v) xs (insert_key k v acc))
            = set (insert_key k v acc) \<union> set xs"
    using Cons.prems(1,4) d disj by (intro Cons.IH) simp_all
  then show ?case by (simp add: x step set_insert_key)
qed

lemma dataObject_plain:
  assumes "distinct (map cname cs)" and "list_all (\<lambda>c. plain_name (cname c)) cs"
  shows "distinct (map fst (dataObject cs))
         \<and> set (dataObject cs) = set (map (\<lambda>c. (cname c, cvalue c)) cs)"
proof -
  have f: "filter (\<lambda>c. cname c \<noteq> []) cs = cs"
    using assms(2) by (induction cs) (simp_all add: plain_name_def)
  have "distinct (map fst (fold (\<lambda>(key, v). obj_set key v) (map (\<lambda>c. (cname c, cvalue c)) cs) []))
        \<and> set (fold (\<lambda>(key, v). obj_set key v) (map (\<lambda>c. (cname c, cvalue c)) cs) [])
            = set [] \<union> set (map (\<lambda>c. (cname c, cvalue c)) cs)"
    using assms
    by (intro fold_obj_set_distinct) (simp_all add: comp_def list_all_iff plain_name_def)
  then show ?thesis by (simp add: dataObject_def formData_def f)
qed

lemma findIndex_update_distinct:
  "distinct (map cname cs) \<Longrightarrow>
   (case findIndex (\<lambda>c. cname c = k) cs of
      None \<Rightarrow> cs
    | Some i \<Rightarrow> cs[i := (cs ! i)\<lparr>cvalue := v\<rparr>])
   = map (\<lambda>c. if cname c = k then c\<lparr>cvalue := v\<rparr> else c) cs"
proof (induction cs)
  case Nil
  then show ?case by simp
next
  case (Cons c cs)
  show ?case
  proof (cases "cname c = k")
    case True
    then have "k \<notin> cname ` set cs" using Cons.prems by auto
    then have "map (\<lambda>c. if cname c = k then c\<lparr>cvalue := v\<rparr> else c) cs = cs"
      by (induction cs) auto
    with True show ?thesis by simp
  next
    case False
    with Cons show ?thesis by (simp split: option.splits)
  qed
qed

lemma restore_entries_distinct:
  assumes "distinct (map fst data)" and "list_all (\<lambda>kv. css_safe (fst kv)) data"
    and "distinct (map cname cs)"
  shows "restore_entries other data cs =
           (map (\<lambda>c. case map_of data (cname c) of None \<Rightarrow> c | Some v \<Rightarrow> c\<lparr>cvalue := v\<rparr>) cs, None)"
  using assms
proof (induction data arbitrary: cs)
  case Nil
  then show ?case by simp
next
  case (Cons kv data)
  obtain k v where kv: "kv = (k, v)" by (cases kv)
  let ?cs1 = "map (\<lambda>c. if cname c = k then c\<lparr>cvalue := v\<rparr> else c) cs"
  have safe: "css_safe k" using Cons.prems(2) by (simp add: kv)
  have step: "restore_entries other (kv # data) cs = restore_entries other data ?cs1"
    using findIndex_update_distinct [OF Cons.prems(3), where k = k and v = v] safe
    by (simp add: kv querySelector_name_def split: option.splits)
  have names: "map cname ?cs1 = map cname cs" by (induction cs) simp_all
  have "restore_entries other data ?cs1 =
          (map (\<lambda>c. case map_of data (cname c) of None \<Rightarrow> c | Some v \<Rightarrow> c\<lparr>cvalue := v\<rparr>) ?cs1, None)"
  proof (intro Cons.IH)
    show "distinct (map fst data)" using Cons.prems(1) by simp
    show "list_all (\<lambda>kv. css_safe (fst kv)) data" using Cons.prems(2) by simp
    show "distinct (map cname ?cs1)" using Cons.prems(3) by (simp only: names)
  qed
  moreover have "map_of data k = None"
    using Cons.prems(1) by (simp add: kv map_of_eq_None_iff)
  then have "map (\<lambda>c. case map_of data (cname c) of None \<Rightarrow> c | Some v \<Rightarrow> c\<lparr>cvalue := v\<rparr>) ?cs1
        = map (\<lambda>c. case map_of (kv # data) (cname c) of None \<Rightarrow> c | Some v \<Rightarrow> c\<lparr>cvalue := v\<rparr>) cs"
    by (simp add: kv)
  ultimately show ?case using step by simp
qed

lemma restore_same_names:
  "map cname cs' = map cname (cs :: control list) \<Longrightarrow> distinct (map cname cs) \<Longrightarrow>
   map (\<lambda>c. case map_of (map (\<lambda>c. (cname c, cvalue c)) cs) (cname c) of
               None \<Rightarrow> c | Some v \<Rightarrow> c\<lparr>cvalue := v\<rparr>) cs' = cs"
proof (induction cs arbitrary: cs')
  case Nil
  then show ?case by simp
next
  case (Cons c cs)
  then obtain c' cs1 where cs': "cs' = c' # cs1" by (cases cs') auto
  have n: "cname c' = cname c" and ns: "map cname cs1 = map cname cs"
    using Cons.prems(1) by (simp_all add: cs')
  have notin: "\<forall>x\<in>set cs1. cname x \<noteq> cname c"
    using Cons.prems(2) ns by (metis distinct.simps(2) image_eqI list.simps(9) list.set_map)
  have "map (\<lambda>x. case map_of (map (\<lambda>c. (cname c, cvalue c)) (c # cs)) (cname x) of
               None \<Rightarrow> x | Some v \<Rightarrow> x\<lparr>cvalue := v\<rparr>) cs1
        = map (\<lambda>x. case map_of (map (\<lambda>c. (cname c, cvalue c)) cs) (cname x) of
               None \<Rightarrow> x | Some v \<Rightarrow> x\<lparr>cvalue := v\<rparr>) cs1"
    using notin by (intro map_cong) simp_all
  also have "\<dots> = cs" using Cons.prems(2) ns by (intro Cons.IH) simp_all
  finally have tl: "map (\<lambda>x. case map_of (map (\<lambda>c. (cname c, cvalue c)) (c # cs)) (cname x) of
               None \<Rightarrow> x | Some v \<Rightarrow> x\<lparr>cvalue := v\<rparr>) cs1 = cs" .
  have hd: "c'\<lparr>cvalue := cvalue c\<rparr> = c"
    using n by (cases c; cases c') simp
  show ?case using n tl hd by (simp add: cs')
qed


lemma showMessage_app [simp]:
  "form (showMessage m t p) = form p"
  "localStorage (showMessage m t p) = localStorage p"
  "form (showMessage_p0 m t p) = form p"
  "localStorage (showMessage_p0 m t p) = localStorage p"
  by (simp_all add: showMessage_def showMessage_p0_def console_error_def split: option.splits)

text \<open>
  Claim C4, as stated: restoring a snapshot that \<open>saveData\<close> wrote into a form with an
  identical set of named fields reproduces every field's value.
  This fails for two fields of the same name: the snapshot keeps the last value only and
  the selector finds the first field only. It fails for a field named \<open>__proto__\<close>, which
  the snapshot never holds, and for a name with a double quote, for which the selector is
  not well-formed, so that the load ends in the \<open>catch\<close> block.
\<close>

theorem roundtrip_fails_on_unusual_names:
  "form (save_then_restore example_stringify (example_parse [[(''x'', ''b'')]]) example_selector
           (example_app [field ''x'' ''a'', field ''x'' ''b''] Map.empty)
           [field ''x'' [], field ''x'' []])
     = Some [field ''x'' ''b'', field ''x'' []]
   \<and> form (save_then_restore example_stringify (example_parse [[]]) example_selector
           (example_app [field ''__proto__'' ''a''] Map.empty) [field ''__proto__'' []])
     = Some [field ''__proto__'' []]
   \<and> form (save_then_restore example_stringify (example_parse [[([CHR ''a'', CHR 0x22, CHR ''b''], ''1'')]])
           example_selector
           (example_app [field [CHR ''a'', CHR 0x22, CHR ''b''] ''1''] Map.empty)
           [field [CHR ''a'', CHR 0x22, CHR ''b''] []])
     = Some [field [CHR ''a'', CHR 0x22, CHR ''b''] []]"
  by code_simp

text \<open>
  Claim C4, amended: let the saved form have pairwise distinct field names, each non-empty,
  free of double quote, backslash, line break and NUL, and other than \<open>__proto__\<close>, and let
  \<open>JSON.parse\<close> read from the non-empty text that \<open>JSON.stringify\<close> wrote an object with the
  same keys and values, in whatever order. Restoring the snapshot into a form with pairwise
  distinct names takes the success path, gives every field whose name is in the snapshot
  the saved value and leaves the other fields as they are; entries without a matching field
  have no effect. If the form has the same names as the saved one, every field's value is
  reproduced.
\<close>

theorem save_restore_roundtrip:
  assumes "form p = Some cs" and "storage_writable p"
    and "distinct (map cname cs)" and "list_all (\<lambda>c. plain_name (cname c)) cs"
    and "stringify (dataObject cs) \<noteq> []"
    and "parse (stringify (dataObject cs)) = Inr data"
    and "distinct (map fst data)" and "set data = set (dataObject cs)"
    and "distinct (map cname cs')"
  shows "save_then_restore stringify parse other p cs' =
           showMessage ''Previous data restored successfully!'' ''success''
             ((saveData stringify p)
                \<lparr>form := Some (map (\<lambda>c. case map_of (formData cs) (cname c) of
                                            None \<Rightarrow> c | Some v \<Rightarrow> c\<lparr>cvalue := v\<rparr>) cs')\<rparr>)
         \<and> save_then_restore_p0 stringify parse other p cs' =
           showMessage_p0 ''Previous data restored successfully!'' ''success''
             ((saveData stringify p)
                \<lparr>form := Some (map (\<lambda>c. case map_of (formData cs) (cname c) of
                                            None \<Rightarrow> c | Some v \<Rightarrow> c\<lparr>cvalue := v\<rparr>) cs')\<rparr>)
         \<and> (map cname cs' = map cname cs \<longrightarrow>
              form (save_then_restore stringify parse other p cs') = Some cs
              \<and> form (save_then_restore_p0 stringify parse other p cs') = Some cs)"
proof -
  let ?q = "(saveData stringify p)\<lparr>form := Some cs'\<rparr>"
  let ?r = "map (\<lambda>c. case map_of (formData cs) (cname c) of
                        None \<Rightarrow> c | Some v \<Rightarrow> c\<lparr>cvalue := v\<rparr>) cs'"
  have fd: "formData cs = map (\<lambda>c. (cname c, cvalue c)) cs"
    using assms(4) by (induction cs) (simp_all add: formData_def plain_name_def)
  have obj: "set (dataObject cs) = set (formData cs)"
    using dataObject_plain [OF assms(3,4)] by (simp add: fd)
  have dfd: "distinct (map fst (formData cs))"
    using assms(3) by (simp add: fd comp_def)
  have same_map: "map_of data = map_of (formData cs)"
    using assms(7,8) dfd obj by (simp add: map_of_inject_set)
  have st: "localStorage ?q storageKey = Some (stringify (dataObject cs))"
    using assms(1,2) by (simp add: saveData_def)
  have safe: "list_all (\<lambda>kv. css_safe (fst kv)) data"
    using assms(4,8) obj by (auto simp: fd list_all_iff plain_name_def)
  have re: "restore_entries other data cs' = (?r, None)"
    using restore_entries_distinct [OF assms(7) safe assms(9)] by (simp add: same_map)
  have q: "?q\<lparr>form := Some ?r\<rparr> = (saveData stringify p)\<lparr>form := Some ?r\<rparr>"
    by simp
  have main: "save_then_restore stringify parse other p cs' =
           showMessage ''Previous data restored successfully!'' ''success''
             ((saveData stringify p)\<lparr>form := Some ?r\<rparr>)"
    unfolding save_then_restore_def loadSavedData_def
    using st assms(5,6) re by (simp add: q)
  have p0: "save_then_restore_p0 stringify parse other p cs' =
           showMessage_p0 ''Previous data restored successfully!'' ''success''
             ((saveData stringify p)\<lparr>form := Some ?r\<rparr>)"
    unfolding save_then_restore_p0_def loadSavedData_p0_def
    using st assms(5,6) re by (simp add: q)
  have same: "map cname cs' = map cname cs \<Longrightarrow> ?r = cs"
    using restore_same_names [of cs' cs] assms(3) by (simp add: fd)
  show ?thesis
    using main p0 same by simp
qed

theorem save_restore_roundtrip_witness:
  "dataObject [field ''b'' ''Naphtha'', field ''2'' ''31.50'', field ''1'' ''7'']
     = [(''1'', ''7''), (''2'', ''31.50''), (''b'', ''Naphtha'')]
   \<and> form (save_then_restore example_stringify
           (example_parse [[(''1'', ''7''), (''2'', ''31.50''), (''b'', ''Naphtha'')]])
           example_selector
           (example_app [field ''b'' ''Naphtha'', field ''2'' ''31.50'', field ''1'' ''7''] Map.empty)
           [field ''b'' ''NC1'', field ''2'' ''25.00'', field ''1'' ''0''])
     = Some [field ''b'' ''Naphtha'', field ''2'' ''31.50'', field ''1'' ''7'']
   \<and> form (save_then_restore example_stringify
           (example_parse [[(''1'', ''7''), (''2'', ''31.50''), (''b'', ''Naphtha'')]])
           example_selector
           (example_app [field ''b'' ''Naphtha'', field ''2'' ''31.50'', field ''1'' ''7''] Map.empty)
           [field ''c'' ''NewComponent1'', field ''2'' ''25.00''])
     = Some [field ''c'' ''NewComponent1'', field ''2'' ''31.50'']"
proof -
  let ?cs = "[field ''b'' ''Naphtha'', field ''2'' ''31.50'', field ''1'' ''7'']"
  let ?obj = "[(''1'', ''7''), (''2'', ''31.50''), (''b'', ''Naphtha'')]"
  let ?p = "example_app ?cs Map.empty"
  have f: "form ?p = Some ?cs" and w: "storage_writable ?p"
    by (simp_all add: example_app_def)
  have d: "distinct (map cname ?cs)" by (simp add: field_def)
  have pl: "list_all (\<lambda>c. plain_name (cname c)) ?cs"
    by (simp add: field_def plain_name_def css_safe_def)
  have obj: "dataObject ?cs = ?obj"
    by code_simp
  have ne: "example_stringify (dataObject ?cs) \<noteq> []"
    by (simp add: example_stringify_def)
  have rt: "example_parse [?obj] (example_stringify (dataObject ?cs)) = Inr ?obj"
    by (simp add: obj example_parse_def)
  have dd: "distinct (map fst ?obj)" by simp
  have sd: "set ?obj = set (dataObject ?cs)" by (simp add: obj)
  have d1: "distinct (map cname [field ''b'' ''NC1'', field ''2'' ''25.00'', field ''1'' ''0''])"
    and d2: "distinct (map cname [field ''c'' ''NewComponent1'', field ''2'' ''25.00''])"
    by (simp_all add: field_def)
  note same = save_restore_roundtrip [where stringify = example_stringify
          and parse = "example_parse [?obj]" and other = example_selector,
          OF f w d pl ne rt dd sd d1, THEN conjunct2, THEN conjunct2]
  note other = save_restore_roundtrip [where stringify = example_stringify
          and parse = "example_parse [?obj]" and other = example_selector,
          OF f w d pl ne rt dd sd d2, THEN conjunct1]
  have "map cname [field ''b'' ''NC1'', field ''2'' ''25.00'', field ''1'' ''0''] = map cname ?cs"
    by (simp add: field_def)
  with same
  have r1: "form (save_then_restore example_stringify (example_parse [?obj]) example_selector ?p
                  [field ''b'' ''NC1'', field ''2'' ''25.00'', field ''1'' ''0'']) = Some ?cs"
    by blast
  have r2: "form (save_then_restore example_stringify (example_parse [?obj]) example_selector ?p
                  [field ''c'' ''NewComponent1'', field ''2'' ''25.00''])
              = Some [field ''c'' ''NewComponent1'', field ''2'' ''31.50'']"
    unfolding other by (simp add: formData_def field_def)
  from obj r1 r2 show ?thesis by (intro conjI)
qed

text \<open>
  Claim C6, as stated: for every stored string that is not JSON, \<open>loadSavedData\<close> applies no
  value, removes the entry under the fixed key and goes on as if nothing had been stored.
  The entry is not removed when the stored string is empty, which \<open>if (savedData)\<close> treats
  as absent, nor when the page has no form, where the function returns before it reads
  the storage.
\<close>

theorem unparsable_entry_can_stay:
  "example_parse [] [] = Inl SyntaxError
   \<and> localStorage (loadSavedData (example_parse []) example_selector
         (example_app [field ''x'' ''1''] [storageKey \<mapsto> []])) storageKey = Some []
   \<and> example_parse [] ''{oops'' = Inl SyntaxError
   \<and> localStorage (loadSavedData (example_parse []) example_selector
         ((example_app [] [storageKey \<mapsto> ''{oops''])\<lparr>form := None\<rparr>)) storageKey = Some ''{oops''"
  by (simp add: example_parse_def loadSavedData_def example_app_def console_error_def)

text \<open>
  Claim C6, amended: on a page with the form, for every non-empty stored string that is not
  JSON, \<open>loadSavedData\<close> changes no field, logs a diagnostic, removes the entry under the
  fixed key and returns normally; a second run then finds nothing stored and changes
  nothing. Both files agree.
\<close>

theorem unparsable_snapshot_purged:
  assumes "form p = Some cs" and "localStorage p storageKey = Some s" and "s \<noteq> []"
    and "parse s = Inl e"
  shows "loadSavedData parse other p =
           p\<lparr>console := console p @ [ConsoleError ''Error loading data from localStorage:''],
             localStorage := (localStorage p)(storageKey := None)\<rparr>
         \<and> form (loadSavedData parse other p) = Some cs
         \<and> localStorage (loadSavedData parse other p) storageKey = None
         \<and> loadSavedData parse other (loadSavedData parse other p) = loadSavedData parse other p
         \<and> loadSavedData_p0 parse other p = loadSavedData parse other p"
proof -
  have 1: "loadSavedData parse other p =
           p\<lparr>console := console p @ [ConsoleError ''Error loading data from localStorage:''],
             localStorage := (localStorage p)(storageKey := None)\<rparr>"
    using assms by (simp add: loadSavedData_def load_failed_def console_error_def)
  have 2: "loadSavedData_p0 parse other p = loadSavedData parse other p"
    using assms by (simp add: loadSavedData_def loadSavedData_p0_def)
  have 3: "loadSavedData parse other
             (p\<lparr>console := console p @ [ConsoleError ''Error loading data from localStorage:''],
               localStorage := (localStorage p)(storageKey := None)\<rparr>)
           = p\<lparr>console := console p @ [ConsoleError ''Error loading data from localStorage:''],
               localStorage := (localStorage p)(storageKey := None)\<rparr>"
    using assms(1) by (simp add: loadSavedData_def)
  show ?thesis
    unfolding 2 unfolding 1 using assms(1) 3 by simp
qed

theorem unparsable_snapshot_purged_witness:
  "loadSavedData (example_parse []) example_selector
     (example_app [field ''x'' ''1''] [storageKey \<mapsto> ''{oops''])
   = (example_app [field ''x'' ''1''] Map.empty)
       \<lparr>console := [ConsoleError ''Error loading data from localStorage:'']\<rparr>"
proof -
  let ?p = "example_app [field ''x'' ''1''] [storageKey \<mapsto> ''{oops'']"
  have f: "form ?p = Some [field ''x'' ''1'']" by (simp add: example_app_def)
  have s: "localStorage ?p storageKey = Some ''{oops''" by (simp add: example_app_def)
  have n: "''{oops'' \<noteq> []" by simp
  have e: "example_parse [] ''{oops'' = Inl SyntaxError" by (simp add: example_parse_def)
  show ?thesis
    using unparsable_snapshot_purged [where parse = "example_parse []" and other = example_selector,
        OF f s n e]
    by (simp add: example_app_def)
qed

section \<open>Properties of the field-rule engine\<close>

lemma inputs_of_apply_matching:
  assumes "\<And>a. tag (f a) = tag a"
  shows "inputs_of (apply_matching sel f n) = map (\<lambda>a. if sel a then f a else a) (inputs_of n)"
proof (induction n)
  case (Text s)
  show ?case by simp
next
  case (Element a ks)
  have "concat (map (inputs_of \<circ> apply_matching sel f) ks)
          = map (\<lambda>a. if sel a then f a else a) (concat (map inputs_of ks))"
    using Element.IH by (induction ks) simp_all
  then show ?case using assms by (simp add: comp_def)
qed

lemma row_inputs_forEach:
  assumes "\<And>a. tag (f a) = tag a"
  shows "row_inputs (querySelectorAll_forEach sel f row)
           = map (\<lambda>a. if sel a then f a else a) (row_inputs row)"
proof (cases row)
  case (Text s)
  then show ?thesis by (simp add: row_inputs_def)
next
  case (Element a ks)
  have "concat (map (inputs_of \<circ> apply_matching sel f) ks)
          = map (\<lambda>a. if sel a then f a else a) (concat (map inputs_of ks))"
    by (induction ks) (simp_all add: inputs_of_apply_matching [OF assms])
  then show ?thesis by (simp add: Element row_inputs_def comp_def)
qed

lemma tag_lock [simp]: "tag (lock a) = tag a"
  by (simp add: lock_def classList_add_def)

lemma lock_fields:
  "readOnly (lock a) \<and> val (lock a) = val a \<and> name (lock a) = name a \<and> tag (lock a) = tag a"
  by (simp add: lock_def classList_add_def)

lemma apply_rule_table_cases:
  "apply_rule_table row =
     (if propertyName_p0 row \<in> set [''SUL'', ''ARO'', ''BEN'', ''OXY'', ''OLEFIN'']
      then querySelectorAll_forEach (input_name_ends ''_min'') (\<lambda>a. lock (a\<lparr>val := []\<rparr>)) row
      else if propertyName_p0 row = ''RVP''
      then querySelectorAll_forEach (input_name_ends ''_min'') (\<lambda>a. a\<lparr>val := ''0''\<rparr>) row
      else if propertyName_p0 row \<in> set [''RON'', ''MON'']
      then querySelectorAll_forEach (input_name_ends ''_max'') (\<lambda>a. lock (a\<lparr>val := ''inf''\<rparr>)) row
      else row)"
  by (simp add: apply_rule_table_def fieldRules_def no_effect_def Let_def)

lemma apply_rule_switch_table:
  "cells row \<noteq> [] \<Longrightarrow> apply_rule_switch row = Inr (apply_rule_table row)"
  unfolding apply_rule_table_cases
  by (cases "cells row") (simp_all add: apply_rule_switch_def propertyName_p0_def Let_def)

lemma apply_rules_table:
  "list_all (\<lambda>row. cells row \<noteq> []) rows \<Longrightarrow> apply_rules rows = (apply_rules_p0 rows, None)"
  by (induction rows) (simp_all add: apply_rules_p0_def apply_rule_switch_table)

lemma fold_update_each:
  "distinct order \<Longrightarrow> set order \<subseteq> {..<length rows} \<Longrightarrow>
   fold (\<lambda>i rs. rs[i := f (rs ! i)]) order rows
     = map (\<lambda>i. if i \<in> set order then f (rows ! i) else rows ! i) [0..<length rows]"
proof (induction order arbitrary: rows)
  case Nil
  then show ?case by (simp add: map_nth)
next
  case (Cons i order)
  let ?rows1 = "rows[i := f (rows ! i)]"
  have "fold (\<lambda>i rs. rs[i := f (rs ! i)]) order ?rows1
          = map (\<lambda>j. if j \<in> set order then f (?rows1 ! j) else ?rows1 ! j) [0..<length ?rows1]"
    using Cons.prems by (intro Cons.IH) simp_all
  also have "\<dots> = map (\<lambda>j. if j \<in> set (i # order) then f (rows ! j) else rows ! j) [0..<length rows]"
    using Cons.prems by (auto simp: nth_list_update)
  finally show ?case by simp
qed

lemma apply_rules_any_order:
  assumes "distinct order" and "set order = {..<length rows}"
  shows "apply_rules_in_order order rows = apply_rules_p0 rows"
proof -
  have "apply_rules_in_order order rows
          = map (\<lambda>i. if i \<in> set order then apply_rule_table (rows ! i) else rows ! i) [0..<length rows]"
    unfolding apply_rules_in_order_def using assms by (intro fold_update_each) simp_all
  also have "\<dots> = map (\<lambda>i. apply_rule_table (rows ! i)) [0..<length rows]"
    using assms(2) by simp
  also have "\<dots> = map apply_rule_table (map (\<lambda>i. rows ! i) [0..<length rows])"
    by (simp add: comp_def)
  also have "\<dots> = map apply_rule_table rows"
    by (simp only: map_nth)
  finally show ?thesis by (simp add: apply_rules_p0_def)
qed


text \<open>
  The rule table of \<open>src/unnamed/part_000\<close> gives every row the effect of its own rule class
  and no other: for SUL, ARO, BEN, OXY and OLEFIN the inputs whose name ends in \<open>_min\<close> are
  emptied and made read-only; for RVP they are set to \<open>0\<close> and their read-only state is
  left alone; for RON and MON the inputs whose name ends in \<open>_max\<close> are set to \<open>inf\<close> and
  made read-only; a row of any other property, or without cells, is left as it is. The
  \<open>switch\<close> of \<open>static/js/main.js\<close> gives the same result when every row has its property
  cell.
\<close>

lemma field_rules_by_class:
  "(list_all (\<lambda>r. cells r \<noteq> []) rows \<longrightarrow> apply_rules rows = (apply_rules_p0 rows, None))
   \<and> length (apply_rules_p0 rows) = length rows
   \<and> (\<forall>i<length rows. apply_rules_p0 rows ! i = apply_rule_table (rows ! i))
   \<and> (propertyName_p0 row \<in> {''SUL'', ''ARO'', ''BEN'', ''OXY'', ''OLEFIN''} \<longrightarrow>
        row_inputs (apply_rule_table row)
          = map (\<lambda>a. if input_name_ends ''_min'' a then lock (a\<lparr>val := []\<rparr>) else a) (row_inputs row))
   \<and> (propertyName_p0 row = ''RVP'' \<longrightarrow>
        row_inputs (apply_rule_table row)
          = map (\<lambda>a. if input_name_ends ''_min'' a then a\<lparr>val := ''0''\<rparr> else a) (row_inputs row))
   \<and> (propertyName_p0 row \<in> {''RON'', ''MON''} \<longrightarrow>
        row_inputs (apply_rule_table row)
          = map (\<lambda>a. if input_name_ends ''_max'' a then lock (a\<lparr>val := ''inf''\<rparr>) else a) (row_inputs row))
   \<and> (propertyName_p0 row \<notin> {''SUL'', ''ARO'', ''BEN'', ''OXY'', ''OLEFIN'', ''RVP'', ''RON'', ''MON''} \<longrightarrow>
        apply_rule_table row = row)
   \<and> (readOnly (lock a) \<and> val (lock a) = val a \<and> name (lock a) = name a)
   \<and> (distinct order \<and> set order = {..<length rows} \<longrightarrow>
        apply_rules_in_order order rows = apply_rules_p0 rows)"
proof -
  have 1: "list_all (\<lambda>r. cells r \<noteq> []) rows \<longrightarrow> apply_rules rows = (apply_rules_p0 rows, None)"
    by (simp add: apply_rules_table)
  have 2: "length (apply_rules_p0 rows) = length rows"
    and 3: "\<forall>i<length rows. apply_rules_p0 rows ! i = apply_rule_table (rows ! i)"
    by (simp_all add: apply_rules_p0_def)
  have 4: "propertyName_p0 row \<in> {''SUL'', ''ARO'', ''BEN'', ''OXY'', ''OLEFIN''} \<longrightarrow>
        row_inputs (apply_rule_table row)
          = map (\<lambda>a. if input_name_ends ''_min'' a then lock (a\<lparr>val := []\<rparr>) else a) (row_inputs row)"
    unfolding apply_rule_table_cases by (simp add: row_inputs_forEach)
  have 5: "propertyName_p0 row = ''RVP'' \<longrightarrow>
        row_inputs (apply_rule_table row)
          = map (\<lambda>a. if input_name_ends ''_min'' a then a\<lparr>val := ''0''\<rparr> else a) (row_inputs row)"
    unfolding apply_rule_table_cases by (simp add: row_inputs_forEach)
  have 6: "propertyName_p0 row \<in> {''RON'', ''MON''} \<longrightarrow>
        row_inputs (apply_rule_table row)
          = map (\<lambda>a. if input_name_ends ''_max'' a then lock (a\<lparr>val := ''inf''\<rparr>) else a) (row_inputs row)"
    unfolding apply_rule_table_cases by (auto simp add: row_inputs_forEach)
  have 7: "propertyName_p0 row \<notin> {''SUL'', ''ARO'', ''BEN'', ''OXY'', ''OLEFIN'', ''RVP'', ''RON'', ''MON''} \<longrightarrow>
        apply_rule_table row = row"
    unfolding apply_rule_table_cases by simp
  have 8: "readOnly (lock a)" "val (lock a) = val a" "name (lock a) = name a"
    using lock_fields [of a] by simp_all
  have 9: "distinct order \<and> set order = {..<length rows} \<longrightarrow>
        apply_rules_in_order order rows = apply_rules_p0 rows"
    using apply_rules_any_order by blast
  from 1 2 3 4 5 6 7 8 9 show ?thesis by (intro conjI)
qed


lemma field_rules_example:
  "map input_state (fst (apply_rules example_rows)) =
     [[(Some ''spec_SUL_min'', [], True), (Some ''spec_SUL_max'', ''10'', False)],
      [(Some ''spec_RVP_min'', ''0'', False), (Some ''spec_RVP_max'', ''9'', False)],
      [(Some ''spec_RON_min'', ''91'', False), (Some ''spec_RON_max'', ''inf'', True)],
      [(Some ''spec_OCT_min'', ''2'', False), (Some ''spec_OCT_max'', ''3'', False)]]
   \<and> snd (apply_rules example_rows) = None
   \<and> apply_rules_in_order [2, 0, 3, 1] example_rows = fst (apply_rules example_rows)"
proof -
  have c: "list_all (\<lambda>r. cells r \<noteq> []) example_rows"
    by code_simp
  have o: "distinct [2, 0, 3, 1::nat] \<and> set [2, 0, 3, 1] = {..<length example_rows}"
    by (auto simp: example_rows_def)
  have v: "map input_state (apply_rules_p0 example_rows) =
     [[(Some ''spec_SUL_min'', [], True), (Some ''spec_SUL_max'', ''10'', False)],
      [(Some ''spec_RVP_min'', ''0'', False), (Some ''spec_RVP_max'', ''9'', False)],
      [(Some ''spec_RON_min'', ''91'', False), (Some ''spec_RON_max'', ''inf'', True)],
      [(Some ''spec_OCT_min'', ''2'', False), (Some ''spec_OCT_max'', ''3'', False)]]"
    by code_simp
  from field_rules_by_class [of example_rows _ _ "[2, 0, 3, 1]"] c o
  have "apply_rules example_rows = (apply_rules_p0 example_rows, None)"
    and "apply_rules_in_order [2, 0, 3, 1] example_rows = apply_rules_p0 example_rows"
    by blast+
  with v show ?thesis by simp
qed

text \<open>
  Claim C9: at load time every specification row gets the effect of its own rule class and
  no other, whatever the order of the rows; in particular the \<open>_max\<close> inputs of a RON row
  are set to \<open>inf\<close> and made read-only.
  In \<open>static/js/main.js\<close> a row without cells ends the pass: \<open>row.cells[0].textContent\<close>
  is a read on \<open>undefined\<close>, the exception leaves \<open>forEach\<close>, and the RON row after it keeps
  its \<open>_max\<close> value and stays writable. \<open>src/unnamed/part_000\<close> reads the cell with \<open>?.\<close>,
  goes on, and applies the rule to the RON row.
\<close>

theorem apply_rules_stops_at_row_without_cells:
  "map input_state (fst (apply_rules rows_with_empty_tr)) =
     [[(Some ''a_min'', [], True), (Some ''a_max'', ''5'', False)],
      [],
      [(Some ''b_min'', ''90'', False), (Some ''b_max'', ''9'', False)]]
   \<and> snd (apply_rules rows_with_empty_tr) = Some TypeError
   \<and> map input_state (apply_rules_p0 rows_with_empty_tr) =
     [[(Some ''a_min'', [], True), (Some ''a_max'', ''5'', False)],
      [],
      [(Some ''b_min'', ''90'', False), (Some ''b_max'', ''inf'', True)]]"
  by code_simp

end
